theory Spec2Isabelle
  imports Complex_Main "HOL-Library.AList"
begin

section \<open>Python values\<close>

text \<open>
  Exceptions are values. The code distinguishes two classes only:
  \<open>requests.exceptions.RequestException\<close> (caught by the retry loop) and every other
  \<open>Exception\<close> (caught at the stage boundaries). Each carries the text of \<open>str(e)\<close>.
\<close>

datatype exn = RequestException string | Exception string

fun str_exn :: "exn \<Rightarrow> string" where
  "str_exn (RequestException m) = m"
| "str_exn (Exception m) = m"

text \<open>
  A decoded JSON body, as \<open>response.json()\<close> returns it. A float is carried by its
  \<open>repr\<close>; a dict is the list of its items in insertion order.
\<close>

datatype json =
    JNull
  | JBool bool
  | JInt int
  | JFloat string
  | JStr string
  | JList "json list"
  | JDict "(string \<times> json) list"

text \<open>A cell of a result row of the warehouse.\<close>

datatype cell = CNull | CInt int | CStr string

record datetime =
  year :: nat
  month :: nat
  day :: nat
  hour :: nat
  minute :: nat
  second :: nat

subsection \<open>Strings\<close>

text \<open>
  A Python \<open>str\<close> is modelled as a list of 8-bit characters read as the code points
  0 to 255. \<open>py_isspace\<close> is the whitespace that \<open>str.strip()\<close> removes in that range.
\<close>

definition py_isspace :: "char \<Rightarrow> bool" where
  "py_isspace c = ((of_char c :: nat) \<in> {9, 10, 11, 12, 13, 28, 29, 30, 31, 32, 133, 160})"

definition strip :: "string \<Rightarrow> string" where
  "strip s = rev (dropWhile py_isspace (rev (dropWhile py_isspace s)))"

text \<open>\<open>s.split(c)\<close>: the pieces between the separators, one more than there are separators.\<close>

fun split_on :: "char \<Rightarrow> string \<Rightarrow> string list" where
  "split_on c [] = [[]]"
| "split_on c (x # xs) =
     (if x = c then [] # split_on c xs
      else (case split_on c xs of
              p # ps \<Rightarrow> (x # p) # ps
            | [] \<Rightarrow> [[x]]))"

text \<open>\<open>s.replace(a, b)\<close> for a one-character \<open>a\<close>.\<close>

definition replace_char :: "char \<Rightarrow> string \<Rightarrow> string \<Rightarrow> string" where
  "replace_char a b s = concat (map (\<lambda>c. if c = a then b else [c]) s)"

definition digit_char :: "nat \<Rightarrow> char" where
  "digit_char d = ''0123456789'' ! d"

fun str_nat :: "nat \<Rightarrow> string" where
  "str_nat n = (if n < 10 then [digit_char n] else str_nat (n div 10) @ [digit_char (n mod 10)])"

declare str_nat.simps [simp del]

definition str_int :: "int \<Rightarrow> string" where
  "str_int i = (if i < 0 then CHR ''-'' # str_nat (nat (- i)) else str_nat (nat i))"

text \<open>Zero padding of \<open>strftime\<close>: at least \<open>w\<close> digits.\<close>

definition zero_pad :: "nat \<Rightarrow> nat \<Rightarrow> string" where
  "zero_pad w n = replicate (w - length (str_nat n)) CHR ''0'' @ str_nat n"

text \<open>\<open>dt.strftime('%Y%m%d_%H%M%S')\<close>, for a year of four digits or more.\<close>

definition strftime_compact :: "datetime \<Rightarrow> string" where
  "strftime_compact dt =
     zero_pad 4 (year dt) @ zero_pad 2 (month dt) @ zero_pad 2 (day dt) @ ''_'' @
     zero_pad 2 (hour dt) @ zero_pad 2 (minute dt) @ zero_pad 2 (second dt)"

text \<open>\<open>a or b\<close> on an optional string: \<open>None\<close> and the empty string are false.\<close>

definition or_str :: "string option \<Rightarrow> string \<Rightarrow> string" where
  "or_str a b = (case a of None \<Rightarrow> b | Some s \<Rightarrow> if s = [] then b else s)"

text \<open>A value that is a string or \<open>None\<close>, and its \<open>str()\<close>, as an f-string formats it.\<close>

datatype py_str = PyNone | PyStr string

definition format_str :: "py_str \<Rightarrow> string" where
  "format_str v = (case v of PyNone \<Rightarrow> ''None'' | PyStr s \<Rightarrow> s)"

text \<open>
  \<open>os.getenv(k) or v\<close>: the environment variable when it is set and not empty, else \<open>v\<close>
  itself, whatever it is.
\<close>

definition env_or :: "string option \<Rightarrow> py_str \<Rightarrow> py_str" where
  "env_or a v = (case a of None \<Rightarrow> v | Some s \<Rightarrow> if s = [] then v else PyStr s)"

section \<open>Configuration\<close>

text \<open>
  The YAML configuration. A key the code reads with \<open>d['k']\<close> is a mandatory field; a
  key it reads with \<open>d.get('k', default)\<close> is optional, \<open>None\<close> standing for an absent
  key. The \<open>headers\<close> of an endpoint is a dict object: the field holds its address in the
  store of header dicts of the world. A token or key that is present may be null
  (\<open>Some PyNone\<close>), which \<open>dict.get\<close> returns as \<open>None\<close>; so may the value of a header.
\<close>

record rate_limit_config =
  requests_per_second :: "real option"
  retry_attempts :: "int option"
  retry_delay :: "real option"

record endpoint =
  name :: string
  url :: string
  http_method :: "string option"
  auth_type :: "string option"
  headers :: "nat option"
  params :: "(string \<times> string) list option"
  target_table :: string
  enabled :: "bool option"
  bearer_token :: "py_str option"
  api_key :: "py_str option"

record api_config =
  rate_limit :: "rate_limit_config option"
  endpoints :: "endpoint list option"

record snowflake_config =
  account :: string
  user :: string
  password :: string
  warehouse :: string
  database :: string
  schema :: string
  role :: string

record config =
  snowflake_section :: snowflake_config
  api_ingestion :: "api_config option"

section \<open>The world: effects and their outcomes\<close>

text \<open>
  A statement handed to \<open>cursor.execute\<close>. The f-strings of the code are templates with
  holes; a statement records the template and the values that fill it.
\<close>

datatype statement =
    Sql string
  | Log_insert string string
  | Log_update string string string int int "string option"
  | Call_clean_raw_data string
  | Call_remove_duplicates string
  | Call_apply_business_transforms string
  | Call_run_all_validations string
  | Select_failed_checks string
  | Create_table string
  | Insert_row string string datetime string string
  | Select_pipe_status string

text \<open>
  The calls that leave the process, in the order they are made. \<open>Execute\<close>, \<open>Commit\<close>,
  \<open>Cursor_open\<close>, \<open>Cursor_close\<close> and \<open>Close\<close> name the connection handle they act on.
\<close>

datatype event =
    Sleep real
  | Http_request string string "(string \<times> py_str) list" "(string \<times> string) list"
  | Connect "string list"
  | Cursor_open nat
  | Execute nat statement
  | Commit nat
  | Cursor_close nat
  | Close nat

text \<open>
  The text of a statement, as the f-string of the code builds it. \<open>sq\<close> is the single
  quote; the error message of an end-log update has its single quotes doubled. The row of
  an \<open>Insert_row\<close> is passed as parameters beside the text.
\<close>

definition sq :: string where
  "sq = [CHR 0x27]"

fun sql_text :: "statement \<Rightarrow> string" where
  "sql_text (Sql q) = q"
| "sql_text (Log_insert n r) =
       ''\<newline>        INSERT INTO VALIDATION.PIPELINE_LOGS (\<newline>            PIPELINE_NAME, RUN_ID, START_TIME, STATUS\<newline>        ) VALUES ('' @
       sq @ n @ sq @ '', '' @ sq @ r @ sq @ '', CURRENT_TIMESTAMP(), '' @ sq @ ''IN_PROGRESS'' @
       sq @ '')\<newline>        ''"
| "sql_text (Log_update n r s rp rf em) =
       ''\<newline>        UPDATE VALIDATION.PIPELINE_LOGS\<newline>        SET END_TIME = CURRENT_TIMESTAMP(),\<newline>            STATUS = '' @
       sq @ s @ sq @ '',\<newline>            ROWS_PROCESSED = '' @ str_int rp @
       '',\<newline>            ROWS_FAILED = '' @ str_int rf @
       '',\<newline>            ERROR_MESSAGE = '' @
       (case em of None \<Rightarrow> ''NULL'' | Some m \<Rightarrow> sq @ replace_char (CHR 0x27) (sq @ sq) m @ sq) @
       '',\<newline>            EXECUTION_TIME_SECONDS = DATEDIFF(SECOND, START_TIME, CURRENT_TIMESTAMP())\<newline>        WHERE RUN_ID = '' @
       sq @ r @ sq @ '' AND PIPELINE_NAME = '' @ sq @ n @ sq @ ''\<newline>        ''"
| "sql_text (Call_clean_raw_data r) =
       ''\<newline>                CALL CLEANED.CLEAN_RAW_DATA(\<newline>                    '' @
       sq @ ''RAW.FILE_INGESTION_STAGING'' @ sq @ '',\<newline>                    '' @ sq @
       ''CLEANED.CLEANED_DATA'' @ sq @ '',\<newline>                    '' @ sq @ r @ sq @
       ''\<newline>                )\<newline>            ''"
| "sql_text (Call_remove_duplicates r) =
       ''\<newline>                CALL CLEANED.REMOVE_DUPLICATES(\<newline>                    '' @
       sq @ ''CLEANED.CLEANED_DATA'' @ sq @ '',\<newline>                    '' @ sq @
       ''column1,column2'' @ sq @ '',\<newline>                    '' @ sq @ r @ sq @
       ''\<newline>                )\<newline>            ''"
| "sql_text (Call_apply_business_transforms r) =
       ''\<newline>                CALL CLEANED.APPLY_BUSINESS_TRANSFORMS(\<newline>                    '' @
       sq @ ''CLEANED.CLEANED_DATA'' @ sq @ '',\<newline>                    '' @ sq @
       ''ANALYTICS.FINAL_DATA'' @ sq @ '',\<newline>                    '' @ sq @ r @ sq @
       ''\<newline>                )\<newline>            ''"
| "sql_text (Call_run_all_validations r) =
       ''\<newline>                CALL VALIDATION.RUN_ALL_VALIDATIONS(\<newline>                    '' @
       sq @ ''ANALYTICS.FINAL_DATA'' @ sq @ '',\<newline>                    '' @ sq @ r @ sq @
       ''\<newline>                )\<newline>            ''"
| "sql_text (Select_failed_checks r) =
       ''\<newline>                SELECT COUNT('' @ ''*) as failed_checks\<newline>                FROM VALIDATION.VALIDATION_RESULTS\<newline>                WHERE RUN_ID = '' @
       sq @ r @ sq @ ''\<newline>                AND STATUS = '' @ sq @ ''FAIL'' @ sq @
       ''\<newline>            ''"
| "sql_text (Create_table t) =
       ''\<newline>            CREATE TABLE IF NOT EXISTS '' @ t @
       '' (\<newline>                data VARIANT,\<newline>                ingestion_timestamp TIMESTAMP_NTZ,\<newline>                run_id VARCHAR(255),\<newline>                source VARCHAR(50)\<newline>            )\<newline>            ''"
| "sql_text (Insert_row t js ts r src) =
       ''\<newline>                INSERT INTO '' @ t @
       '' (data, ingestion_timestamp, run_id, source)\<newline>                VALUES (PARSE_JSON(%s), %s, %s, %s)\<newline>                ''"
| "sql_text (Select_pipe_status p) =
       ''SELECT SYSTEM$PIPE_STATUS('' @ sq @ p @ sq @ '')''"

datatype http_outcome = Raises exn | Body json

datatype db_outcome = Db_raise string | Db_rows "cell list list"

text \<open>
  The world holds what the process changes (the trace of calls, the counters of the
  oracles, the attributes of the objects it allocated) and what it only reads: the
  environment variables, the files, the clock, and the outcomes of the k-th HTTP request
  and of the k-th call on the warehouse. \<open>frame_error\<close> and \<open>row_json\<close> stand for
  pandas and \<open>json.dumps\<close>, which are not code of this repository: whether
  \<open>pd.DataFrame(data)\<close> raises, and, for the frame with the metadata columns added, what
  \<open>json.dumps(row.to_dict())\<close> gives or raises for each row. \<open>max_sleep\<close> is the longest
  sleep, in seconds, that the platform's \<open>time.sleep\<close> can represent.
\<close>

record world =
  trace :: "event list"
  environ :: "string \<Rightarrow> string option"
  yaml_file :: "string \<Rightarrow> exn + config"
  text_file :: "string \<Rightarrow> exn + string"
  clock :: "nat \<Rightarrow> datetime"
  clock_reads :: nat
  uuid4 :: "nat \<Rightarrow> string"
  uuid_draws :: nat
  http_reply :: "nat \<Rightarrow> http_outcome"
  http_calls :: nat
  db_reply :: "nat \<Rightarrow> db_outcome"
  db_calls :: nat
  connection :: "nat \<Rightarrow> nat option"
  next_connector :: nat
  is_open :: "nat \<Rightarrow> bool"
  next_handle :: nat
  header_dicts :: "nat \<Rightarrow> (string \<times> py_str) list"
  next_dict :: nat
  max_sleep :: real
  frame_error :: "json list \<Rightarrow> exn option"
  row_json :: "json list \<Rightarrow> datetime \<Rightarrow> string \<Rightarrow> (exn + string) list"

type_synonym 'a action = "world \<Rightarrow> (exn + 'a) \<times> world"

definition return :: "'a \<Rightarrow> 'a action" where
  "return x w = (Inr x, w)"

definition raise :: "exn \<Rightarrow> 'a action" where
  "raise e w = (Inl e, w)"

definition seq :: "'a action \<Rightarrow> ('a \<Rightarrow> 'b action) \<Rightarrow> 'b action" where
  "seq m f w = (case m w of (Inl e, w') \<Rightarrow> (Inl e, w') | (Inr x, w') \<Rightarrow> f x w')"

text \<open>\<open>try: m  except Exception as e: h e\<close>\<close>

definition try_except :: "'a action \<Rightarrow> (exn \<Rightarrow> 'a action) \<Rightarrow> 'a action" where
  "try_except m h w = (case m w of (Inl e, w') \<Rightarrow> h e w' | (Inr x, w') \<Rightarrow> (Inr x, w'))"

text \<open>\<open>try: m  finally: fin\<close>, for a \<open>fin\<close> that does not raise.\<close>

definition try_finally :: "'a action \<Rightarrow> (world \<Rightarrow> world) \<Rightarrow> 'a action" where
  "try_finally m fin w = (case m w of (r, w') \<Rightarrow> (r, fin w'))"

definition emit :: "event \<Rightarrow> world \<Rightarrow> world" where
  "emit ev w = w\<lparr>trace := trace w @ [ev]\<rparr>"

text \<open>
  A call on the warehouse that may raise: \<open>snowflake.connector.connect\<close>,
  \<open>cursor.execute\<close>, \<open>conn.commit\<close>, \<open>conn.close\<close>. Its outcome is the next one of the
  oracle. Creating and closing a cursor are local and do not raise.
\<close>

definition db_call :: "event \<Rightarrow> (cell list list) action" where
  "db_call ev w =
     (let w' = (emit ev w)\<lparr>db_calls := Suc (db_calls w)\<rparr>
      in case db_reply w (db_calls w) of
           Db_raise m \<Rightarrow> (Inl (Exception m), w')
         | Db_rows rs \<Rightarrow> (Inr rs, w'))"

text \<open>\<open>cursor.fetchone()\<close> after an \<open>execute\<close> that gave \<open>rows\<close>.\<close>

definition fetchone :: "cell list list \<Rightarrow> cell list option" where
  "fetchone rows = (case rows of [] \<Rightarrow> None | r # _ \<Rightarrow> Some r)"

text \<open>\<open>datetime.now()\<close>\<close>

definition now :: "world \<Rightarrow> datetime \<times> world" where
  "now w = (clock w (clock_reads w), w\<lparr>clock_reads := Suc (clock_reads w)\<rparr>)"

section \<open>utils/snowflake\_connector.py\<close>

text \<open>
  A \<open>SnowflakeConnector\<close> object: its address, and the configuration it loaded. Its
  \<open>connection\<close> attribute is mutable and lives in the world, under the address.
\<close>

record connector =
  cid :: nat
  conf :: config

definition new_connector :: "string \<Rightarrow> connector action" where
  "new_connector config_path w =
     (case yaml_file w config_path of
        Inl e \<Rightarrow> (Inl e, w)
      | Inr cfg \<Rightarrow>
          (Inr \<lparr>cid = next_connector w, conf = cfg\<rparr>,
           w\<lparr>connection := (connection w)(next_connector w := None),
             next_connector := Suc (next_connector w)\<rparr>))"

definition connect_params :: "connector \<Rightarrow> world \<Rightarrow> string list" where
  "connect_params c w =
     (let sf = snowflake_section (conf c)
      in [or_str (environ w ''SNOWFLAKE_ACCOUNT'') (account sf),
          or_str (environ w ''SNOWFLAKE_USER'') (user sf),
          or_str (environ w ''SNOWFLAKE_PASSWORD'') (password sf),
          warehouse sf, database sf, schema sf, role sf])"

definition open_connection :: "connector \<Rightarrow> nat action" where
  "open_connection c w =
     (case db_call (Connect (connect_params c w)) w of
        (Inl e, w') \<Rightarrow> (Inl e, w')
      | (Inr _, w') \<Rightarrow>
          (Inr (next_handle w'),
           w'\<lparr>connection := (connection w')(cid c := Some (next_handle w')),
              is_open := (is_open w')(next_handle w' := True),
              next_handle := Suc (next_handle w')\<rparr>))"

definition connect :: "connector \<Rightarrow> nat action" where
  "connect c w =
     (case connection w (cid c) of
        None \<Rightarrow> open_connection c w
      | Some h \<Rightarrow> if \<not> is_open w h then open_connection c w else (Inr h, w))"

text \<open>The loop of \<open>execute_file\<close> over the pieces of the file.\<close>

fun execute_statements :: "nat \<Rightarrow> string list \<Rightarrow> unit action" where
  "execute_statements h [] w = (Inr (), w)"
| "execute_statements h (piece # rest) w =
     (let statement = strip piece
      in if statement \<noteq> [] then
           (case db_call (Execute h (Sql statement)) w of
              (Inl e, w') \<Rightarrow> (Inl e, w')
            | (Inr _, w') \<Rightarrow> execute_statements h rest w')
         else execute_statements h rest w)"

definition execute_file :: "connector \<Rightarrow> string \<Rightarrow> unit action" where
  "execute_file c file_path =
     seq (connect c) (\<lambda>conn.
       seq (\<lambda>w. (Inr (), emit (Cursor_open conn) w)) (\<lambda>_.
         try_finally
           (seq (\<lambda>w. (text_file w file_path, w)) (\<lambda>sql.
              seq (execute_statements conn (split_on CHR '';'' sql)) (\<lambda>_.
                seq (db_call (Commit conn)) (\<lambda>_. return ()))))
           (emit (Cursor_close conn))))"

definition execute_query :: "connector \<Rightarrow> statement \<Rightarrow> bool \<Rightarrow> (cell list list option) action" where
  "execute_query c query fetch =
     seq (connect c) (\<lambda>conn.
       seq (\<lambda>w. (Inr (), emit (Cursor_open conn) w)) (\<lambda>_.
         try_finally
           (seq (db_call (Execute conn query)) (\<lambda>rows.
              if fetch then return (Some rows) else return None))
           (emit (Cursor_close conn))))"

definition close :: "connector \<Rightarrow> unit action" where
  "close c w =
     (case connection w (cid c) of
        None \<Rightarrow> (Inr (), w)
      | Some h \<Rightarrow>
          if is_open w h then
            (case db_call (Close h) w of
               (Inl e, w') \<Rightarrow> (Inl e, w')
             | (Inr _, w') \<Rightarrow>
                 (Inr (), w'\<lparr>is_open := (is_open w')(h := False),
                            connection := (connection w')(cid c := None)\<rparr>))
          else (Inr (), w))"

section \<open>ingestion/api\_ingestion.py\<close>

record api_ingestion_obj =
  api_snowflake :: connector
  api_conf :: api_config

definition new_api_ingestion :: "string \<Rightarrow> api_ingestion_obj action" where
  "new_api_ingestion config_path =
     seq (\<lambda>w. (yaml_file w config_path, w)) (\<lambda>cfg.
       seq (new_connector config_path) (\<lambda>c.
         return \<lparr>api_snowflake = c,
                 api_conf = (case api_ingestion cfg of
                               None \<Rightarrow> \<lparr>rate_limit = None, endpoints = None\<rparr>
                             | Some a \<Rightarrow> a)\<rparr>))"

text \<open>
  \<open>_get_auth_headers\<close>: the static headers are copied into a new dict, and the
  authentication header is stored in the copy. The result is the address of the copy.
\<close>

definition get_auth_headers :: "endpoint \<Rightarrow> world \<Rightarrow> nat \<times> world" where
  "get_auth_headers endpoint_config w =
     (let static = (case headers endpoint_config of None \<Rightarrow> [] | Some a \<Rightarrow> header_dicts w a);
          hs = next_dict w;
          w1 = w\<lparr>header_dicts := (header_dicts w)(hs := static), next_dict := Suc hs\<rparr>;
          auth = (case auth_type endpoint_config of None \<Rightarrow> ''none'' | Some t \<Rightarrow> t)
      in if auth = ''bearer'' then
           (let token = env_or (environ w1 ''API_BEARER_TOKEN'')
                          (case bearer_token endpoint_config of None \<Rightarrow> PyStr [] | Some t \<Rightarrow> t)
            in (hs, w1\<lparr>header_dicts := (header_dicts w1)
                    (hs := AList.update ''Authorization'' (PyStr (''Bearer '' @ format_str token))
                             (header_dicts w1 hs))\<rparr>))
         else if auth = ''api_key'' then
           (let key = env_or (environ w1 ''API_KEY'')
                        (case api_key endpoint_config of None \<Rightarrow> PyStr [] | Some t \<Rightarrow> t)
            in (hs, w1\<lparr>header_dicts := (header_dicts w1)
                    (hs := AList.update ''X-API-Key'' key (header_dicts w1 hs))\<rparr>))
         else (hs, w1))"

text \<open>The response formats of \<open>_fetch_api_data\<close> (lines 83 to 94).\<close>

definition as_list :: "json \<Rightarrow> json list" where
  "as_list v = (case v of JList ys \<Rightarrow> ys | _ \<Rightarrow> [v])"

definition raw_data :: "string \<Rightarrow> json list" where
  "raw_data s = [JDict [(''raw_data'', JStr s)]]"

fun normalize_response :: "json \<Rightarrow> json list" where
  "normalize_response (JList xs) = xs"
| "normalize_response (JDict items) =
     (case map_of items ''data'' of
        Some v \<Rightarrow> as_list v
      | None \<Rightarrow>
          (case map_of items ''results'' of
             Some v \<Rightarrow> as_list v
           | None \<Rightarrow> [JDict items]))"
| "normalize_response JNull = raw_data ''None''"
| "normalize_response (JBool b) = raw_data (if b then ''True'' else ''False'')"
| "normalize_response (JInt i) = raw_data (str_int i)"
| "normalize_response (JFloat r) = raw_data r"
| "normalize_response (JStr s) = raw_data s"

text \<open>
  \<open>time.sleep(d)\<close> raises \<open>OverflowError\<close> on a length that the platform cannot
  represent and \<open>ValueError\<close> on a negative one.
\<close>

definition py_sleep :: "real \<Rightarrow> unit action" where
  "py_sleep d w =
     (if d < - max_sleep w \<or> max_sleep w < d then
        (Inl (Exception ''timestamp too large to convert to C _PyTime_t''), w)
      else if d < 0 then (Inl (Exception ''sleep length must be non-negative''), w)
      else (Inr (), emit (Sleep d) w))"

text \<open>
  \<open>requests.request(...)\<close>, \<open>raise_for_status()\<close> and \<open>response.json()\<close>: together they
  give the decoded body or raise.
\<close>

definition http_request ::
  "string \<Rightarrow> string \<Rightarrow> (string \<times> py_str) list \<Rightarrow> (string \<times> string) list \<Rightarrow> world \<Rightarrow> http_outcome \<times> world" where
  "http_request m u hs ps w =
     (http_reply w (http_calls w),
      (emit (Http_request m u hs ps) w)\<lparr>http_calls := Suc (http_calls w)\<rparr>)"

text \<open>
  The settings that \<open>_fetch_api_data\<close> reads from \<open>self.api_config\<close>, with their
  defaults: \<open>rate_limit\<close>, \<open>max_retries\<close>, \<open>retry_delay\<close> and \<open>requests_per_second\<close>.
\<close>

definition rate_limit_of :: "api_ingestion_obj \<Rightarrow> rate_limit_config" where
  "rate_limit_of self =
     (case rate_limit (api_conf self) of
        None \<Rightarrow> \<lparr>requests_per_second = None, retry_attempts = None, retry_delay = None\<rparr>
      | Some x \<Rightarrow> x)"

definition max_retries_of :: "api_ingestion_obj \<Rightarrow> int" where
  "max_retries_of self = (case retry_attempts (rate_limit_of self) of None \<Rightarrow> 3 | Some x \<Rightarrow> x)"

definition retry_delay_of :: "api_ingestion_obj \<Rightarrow> real" where
  "retry_delay_of self = (case retry_delay (rate_limit_of self) of None \<Rightarrow> 5 | Some x \<Rightarrow> x)"

definition requests_per_second_of :: "rate_limit_config \<Rightarrow> real" where
  "requests_per_second_of rl = (case requests_per_second rl of None \<Rightarrow> 10 | Some r \<Rightarrow> r)"

definition method_of :: "endpoint \<Rightarrow> string" where
  "method_of endpoint_config = (case http_method endpoint_config of None \<Rightarrow> ''GET'' | Some x \<Rightarrow> x)"

definition params_of :: "endpoint \<Rightarrow> (string \<times> string) list" where
  "params_of endpoint_config = (case params endpoint_config of None \<Rightarrow> [] | Some x \<Rightarrow> x)"

text \<open>The loop \<open>for attempt in range(max_retries)\<close> of \<open>_fetch_api_data\<close>.\<close>

fun fetch_attempts ::
  "string \<Rightarrow> string \<Rightarrow> (string \<times> py_str) list \<Rightarrow> (string \<times> string) list \<Rightarrow>
   rate_limit_config \<Rightarrow> int \<Rightarrow> real \<Rightarrow> nat list \<Rightarrow> (json list option) action" where
  "fetch_attempts m u hs ps rl max_retries delay [] w = (Inr None, w)"
| "fetch_attempts m u hs ps rl max_retries delay (attempt # rest) w =
     (if requests_per_second_of rl = 0 then (Inl (Exception ''float division by zero''), w)
      else
        (case py_sleep (1 / requests_per_second_of rl) w of
           (Inl e, w1) \<Rightarrow> (Inl e, w1)
         | (Inr _, w1) \<Rightarrow>
             (case http_request m u hs ps w1 of
                (Body data, w2) \<Rightarrow> (Inr (Some (normalize_response data)), w2)
              | (Raises (RequestException msg), w2) \<Rightarrow>
                  if int attempt < max_retries - 1 then
                    (case py_sleep delay w2 of
                       (Inl e, w3) \<Rightarrow> (Inl e, w3)
                     | (Inr _, w3) \<Rightarrow> fetch_attempts m u hs ps rl max_retries delay rest w3)
                  else (Inr None, w2)
              | (Raises (Exception msg), w2) \<Rightarrow> (Inl (Exception msg), w2))))"

definition fetch_api_data :: "api_ingestion_obj \<Rightarrow> endpoint \<Rightarrow> (json list option) action" where
  "fetch_api_data self endpoint_config w =
     (case get_auth_headers endpoint_config w of
        (hs, w1) \<Rightarrow>
          fetch_attempts (method_of endpoint_config) (url endpoint_config) (header_dicts w1 hs)
            (params_of endpoint_config) (rate_limit_of self) (max_retries_of self)
            (retry_delay_of self) [0..<nat (max_retries_of self)] w1)"

text \<open>The loop over \<open>df.iterrows()\<close> of \<open>_load_to_snowflake\<close>.\<close>

fun insert_rows :: "nat \<Rightarrow> string \<Rightarrow> datetime \<Rightarrow> string \<Rightarrow> (exn + string) list \<Rightarrow> unit action" where
  "insert_rows h target ts run [] w = (Inr (), w)"
| "insert_rows h target ts run (r # rest) w =
     (case r of
        Inl e \<Rightarrow> (Inl e, w)
      | Inr js \<Rightarrow>
          (case db_call (Execute h (Insert_row target js ts run ''API'')) w of
             (Inl e, w') \<Rightarrow> (Inl e, w')
           | (Inr _, w') \<Rightarrow> insert_rows h target ts run rest w'))"

definition load_to_snowflake ::
  "api_ingestion_obj \<Rightarrow> json list \<Rightarrow> string \<Rightarrow> string \<Rightarrow> bool action" where
  "load_to_snowflake self data target run =
     (if data = [] then return False
      else
        try_except
          (seq (connect (api_snowflake self)) (\<lambda>conn.
             seq (\<lambda>w. (Inr (), emit (Cursor_open conn) w)) (\<lambda>_.
               seq (\<lambda>w. (case frame_error w data of Some e \<Rightarrow> (Inl e, w) | None \<Rightarrow> (Inr (), w))) (\<lambda>_.
                 seq (\<lambda>w. (case now w of (ts, w') \<Rightarrow> (Inr ts, w'))) (\<lambda>ts.
                   seq (db_call (Execute conn (Create_table target))) (\<lambda>_.
                     seq (\<lambda>w. insert_rows conn target ts run (row_json w data ts run) w) (\<lambda>_.
                       seq (db_call (Commit conn)) (\<lambda>_.
                         seq (\<lambda>w. (Inr (), emit (Cursor_close conn) w)) (\<lambda>_.
                           return True)))))))))
          (\<lambda>e. return False))"

definition is_enabled :: "endpoint \<Rightarrow> bool" where
  "is_enabled ep = (case enabled ep of None \<Rightarrow> True | Some b \<Rightarrow> b)"

text \<open>\<open>self.api_config.get('endpoints', [])\<close>\<close>

definition endpoints_of :: "api_ingestion_obj \<Rightarrow> endpoint list" where
  "endpoints_of self = (case endpoints (api_conf self) of None \<Rightarrow> [] | Some x \<Rightarrow> x)"

definition ingest_endpoint :: "api_ingestion_obj \<Rightarrow> string \<Rightarrow> bool action" where
  "ingest_endpoint self endpoint_name w =
     (case find (\<lambda>ep. name ep = endpoint_name \<and> is_enabled ep) (endpoints_of self) of
        None \<Rightarrow> (Inr False, w)
      | Some endpoint_config \<Rightarrow>
          (case now w of
             (ts, w1) \<Rightarrow>
               (let run = ''API_'' @ endpoint_name @ ''_'' @ strftime_compact ts
                in case fetch_api_data self endpoint_config w1 of
                     (Inl e, w2) \<Rightarrow> (Inl e, w2)
                   | (Inr None, w2) \<Rightarrow> (Inr False, w2)
                   | (Inr (Some data), w2) \<Rightarrow>
                       load_to_snowflake self data (target_table endpoint_config) run w2)))"

text \<open>The loop of \<open>ingest_all_endpoints\<close>; \<open>results\<close> is the dict built so far.\<close>

fun ingest_each ::
  "api_ingestion_obj \<Rightarrow> endpoint list \<Rightarrow> (string \<times> bool) list \<Rightarrow> ((string \<times> bool) list) action" where
  "ingest_each self [] results w = (Inr results, w)"
| "ingest_each self (ep # rest) results w =
     (if is_enabled ep then
        (case ingest_endpoint self (name ep) w of
           (Inl e, w') \<Rightarrow> (Inl e, w')
         | (Inr ok, w') \<Rightarrow> ingest_each self rest (AList.update (name ep) ok results) w')
      else ingest_each self rest results w)"

definition ingest_all_endpoints :: "api_ingestion_obj \<Rightarrow> ((string \<times> bool) list) action" where
  "ingest_all_endpoints self = ingest_each self (endpoints_of self) []"

section \<open>ingestion/file\_ingestion.py\<close>

record file_ingestion_obj =
  file_snowflake :: connector

text \<open>\<open>result[0] if result else otherwise\<close> on a fetched row: an empty tuple is false.\<close>

definition first_cell :: "cell list option \<Rightarrow> cell \<Rightarrow> cell" where
  "first_cell result otherwise =
     (case result of None \<Rightarrow> otherwise | Some [] \<Rightarrow> otherwise | Some (c # _) \<Rightarrow> c)"

text \<open>The body of the \<open>try\<close> of \<open>check_pipe_status\<close>; the Python \<open>None\<close> is \<open>CNull\<close>.\<close>

definition pipe_status_body :: "file_ingestion_obj \<Rightarrow> string \<Rightarrow> cell action" where
  "pipe_status_body self pipe_name =
     seq (connect (file_snowflake self)) (\<lambda>conn.
       seq (\<lambda>w. (Inr (), emit (Cursor_open conn) w)) (\<lambda>_.
         seq (db_call (Execute conn (Select_pipe_status pipe_name))) (\<lambda>rows.
           seq (\<lambda>w. (Inr (), emit (Cursor_close conn) w)) (\<lambda>_.
             return (first_cell (fetchone rows) CNull)))))"

definition check_pipe_status :: "file_ingestion_obj \<Rightarrow> string \<Rightarrow> cell action" where
  "check_pipe_status self pipe_name =
     try_except (pipe_status_body self pipe_name) (\<lambda>e. return CNull)"

section \<open>orchestration/pipeline\_orchestrator.py\<close>

record orchestrator =
  orch_config :: config
  snowflake :: connector
  run_id :: string

text \<open>\<open>__init__\<close>: the only place that assigns \<open>run_id\<close>.\<close>

definition new_orchestrator :: "string \<Rightarrow> orchestrator action" where
  "new_orchestrator config_path =
     seq (\<lambda>w. (yaml_file w config_path, w)) (\<lambda>cfg.
       seq (new_connector config_path) (\<lambda>c.
         seq (\<lambda>w. (case now w of (ts, w') \<Rightarrow> (Inr ts, w'))) (\<lambda>ts.
           seq (\<lambda>w. (Inr (uuid4 w (uuid_draws w)), w\<lparr>uuid_draws := Suc (uuid_draws w)\<rparr>)) (\<lambda>u.
             return \<lparr>orch_config = cfg, snowflake = c,
                     run_id = ''RUN_'' @ strftime_compact ts @ ''_'' @ take 8 u\<rparr>))))"

definition log_pipeline_start :: "orchestrator \<Rightarrow> string \<Rightarrow> unit action" where
  "log_pipeline_start self pipeline_name =
     seq (connect (snowflake self)) (\<lambda>conn.
       seq (\<lambda>w. (Inr (), emit (Cursor_open conn) w)) (\<lambda>_.
         seq (db_call (Execute conn (Log_insert pipeline_name (run_id self)))) (\<lambda>_.
           seq (db_call (Commit conn)) (\<lambda>_.
             (\<lambda>w. (Inr (), emit (Cursor_close conn) w))))))"

definition log_pipeline_end ::
  "orchestrator \<Rightarrow> string \<Rightarrow> string \<Rightarrow> int \<Rightarrow> int \<Rightarrow> string option \<Rightarrow> unit action" where
  "log_pipeline_end self pipeline_name status rows_processed rows_failed error_message =
     seq (connect (snowflake self)) (\<lambda>conn.
       seq (\<lambda>w. (Inr (), emit (Cursor_open conn) w)) (\<lambda>_.
         seq (db_call (Execute conn
                (Log_update pipeline_name (run_id self) status rows_processed rows_failed
                   error_message))) (\<lambda>_.
           seq (db_call (Commit conn)) (\<lambda>_.
             (\<lambda>w. (Inr (), emit (Cursor_close conn) w))))))"

text \<open>The body of the \<open>try\<close> of \<open>run_ingestion\<close>.\<close>

definition ingestion_body :: "orchestrator \<Rightarrow> bool action" where
  "ingestion_body self =
     seq (new_api_ingestion ''config/config.yaml'') (\<lambda>api.
       seq (ingest_all_endpoints api) (\<lambda>api_results.
         (let api_success = list_all snd api_results
          in seq (log_pipeline_end self ''INGESTION''
                    (if api_success then ''SUCCESS'' else ''FAILED'') 0 0 None) (\<lambda>_.
               return api_success))))"

definition run_ingestion :: "orchestrator \<Rightarrow> bool action" where
  "run_ingestion self =
     seq (log_pipeline_start self ''INGESTION'') (\<lambda>_.
       try_except (ingestion_body self)
         (\<lambda>e. seq (log_pipeline_end self ''INGESTION'' ''FAILED'' 0 0 (Some (str_exn e))) (\<lambda>_.
                 return False)))"

text \<open>The body of the \<open>try\<close> of \<open>run_transformation\<close>.\<close>

definition transformation_body :: "orchestrator \<Rightarrow> bool action" where
  "transformation_body self =
     seq (connect (snowflake self)) (\<lambda>conn.
       seq (\<lambda>w. (Inr (), emit (Cursor_open conn) w)) (\<lambda>_.
         seq (db_call (Execute conn (Call_clean_raw_data (run_id self)))) (\<lambda>_.
           seq (db_call (Execute conn (Call_remove_duplicates (run_id self)))) (\<lambda>_.
             seq (db_call (Execute conn (Call_apply_business_transforms (run_id self)))) (\<lambda>_.
               seq (db_call (Commit conn)) (\<lambda>_.
                 seq (\<lambda>w. (Inr (), emit (Cursor_close conn) w)) (\<lambda>_.
                   seq (log_pipeline_end self ''TRANSFORMATION'' ''SUCCESS'' 0 0 None) (\<lambda>_.
                     return True))))))))"

definition run_transformation :: "orchestrator \<Rightarrow> bool action" where
  "run_transformation self =
     seq (log_pipeline_start self ''TRANSFORMATION'') (\<lambda>_.
       try_except (transformation_body self)
         (\<lambda>e. seq (log_pipeline_end self ''TRANSFORMATION'' ''FAILED'' 0 0 (Some (str_exn e))) (\<lambda>_.
                 return False)))"

text \<open>
  \<open>failed_checks > 0\<close>: an integer is compared; \<open>None\<close> and a string raise \<open>TypeError\<close>.
\<close>

definition greater_than_zero :: "cell \<Rightarrow> exn + bool" where
  "greater_than_zero c =
     (case c of
        CInt n \<Rightarrow> Inr (0 < n)
      | CNull \<Rightarrow> Inl (Exception ''> not supported between instances of NoneType and int'')
      | CStr s \<Rightarrow> Inl (Exception ''> not supported between instances of str and int''))"

text \<open>\<open>f'{failed_checks} validation checks failed'\<close>, reached for an integer only.\<close>

definition failed_message :: "cell \<Rightarrow> string" where
  "failed_message c =
     (case c of CInt n \<Rightarrow> str_int n | CStr s \<Rightarrow> s | CNull \<Rightarrow> ''None'') @
     '' validation checks failed''"

text \<open>The body of the \<open>try\<close> of \<open>run_validation\<close>.\<close>

definition validation_body :: "orchestrator \<Rightarrow> bool action" where
  "validation_body self =
     seq (connect (snowflake self)) (\<lambda>conn.
       seq (\<lambda>w. (Inr (), emit (Cursor_open conn) w)) (\<lambda>_.
         seq (db_call (Execute conn (Call_run_all_validations (run_id self)))) (\<lambda>_.
           seq (db_call (Execute conn (Select_failed_checks (run_id self)))) (\<lambda>rows.
             (let failed_checks = first_cell (fetchone rows) (CInt 0)
              in seq (\<lambda>w. (Inr (), emit (Cursor_close conn) w)) (\<lambda>_.
                   (let status = (if failed_checks = CInt 0 then ''SUCCESS'' else ''FAILED'')
                    in seq (\<lambda>w. (greater_than_zero failed_checks, w)) (\<lambda>positive.
                         seq (log_pipeline_end self ''VALIDATION'' status 0 0
                                (if positive then Some (failed_message failed_checks) else None)) (\<lambda>_.
                           return (failed_checks = CInt 0))))))))))"

definition run_validation :: "orchestrator \<Rightarrow> bool action" where
  "run_validation self =
     seq (log_pipeline_start self ''VALIDATION'') (\<lambda>_.
       try_except (validation_body self)
         (\<lambda>e. seq (log_pipeline_end self ''VALIDATION'' ''FAILED'' 0 0 (Some (str_exn e))) (\<lambda>_.
                 return False)))"

text \<open>\<open>run_full_pipeline\<close>; the result is the dict \<open>results\<close>, as its list of items.\<close>

definition run_full_pipeline :: "orchestrator \<Rightarrow> ((string \<times> bool) list) action" where
  "run_full_pipeline self =
     (let results = [(''ingestion'', False), (''transformation'', False), (''validation'', False)]
      in seq (run_ingestion self) (\<lambda>ingested.
           (let results = AList.update ''ingestion'' ingested results
            in if \<not> ingested then return results
               else
                 seq (run_transformation self) (\<lambda>transformed.
                   (let results = AList.update ''transformation'' transformed results
                    in if \<not> transformed then return results
                       else
                         seq (run_validation self) (\<lambda>validated.
                           return (AList.update ''validation'' validated results)))))))"

section \<open>Reading the trace\<close>

text \<open>The pipeline stage a statement belongs to, if it belongs to one.\<close>

fun event_stage :: "event \<Rightarrow> string option" where
  "event_stage (Execute h (Log_insert n r)) = Some n"
| "event_stage (Execute h (Log_update n r s rp rf em)) = Some n"
| "event_stage (Execute h (Call_clean_raw_data r)) = Some ''TRANSFORMATION''"
| "event_stage (Execute h (Call_remove_duplicates r)) = Some ''TRANSFORMATION''"
| "event_stage (Execute h (Call_apply_business_transforms r)) = Some ''TRANSFORMATION''"
| "event_stage (Execute h (Call_run_all_validations r)) = Some ''VALIDATION''"
| "event_stage (Execute h (Select_failed_checks r)) = Some ''VALIDATION''"
| "event_stage _ = None"

text \<open>The run identifier that a start-log insert or an end-log update carries.\<close>

fun log_run_id :: "event \<Rightarrow> string option" where
  "log_run_id (Execute h (Log_insert n r)) = Some r"
| "log_run_id (Execute h (Log_update n r s rp rf em)) = Some r"
| "log_run_id _ = None"


text \<open>The statements of a file, in the words of the contract: the pieces between
  semicolons, stripped, the empty ones left out.\<close>

definition statements_of :: "string \<Rightarrow> string list" where
  "statements_of sql = filter (\<lambda>s. s \<noteq> []) (map strip (split_on CHR '';'' sql))"


text \<open>An event of stage \<open>st\<close> of the run \<open>rid\<close>, or of no stage.\<close>

definition stage_event :: "string \<Rightarrow> string \<Rightarrow> event \<Rightarrow> bool" where
  "stage_event st rid e =
     ((event_stage e = None \<or> event_stage e = Some st) \<and>
      (log_run_id e = None \<or> log_run_id e = Some rid))"

definition plain_event :: "event \<Rightarrow> bool" where
  "plain_event e = (event_stage e = None \<and> log_run_id e = None)"

text \<open>Every event that an action adds to the trace satisfies \<open>P\<close>.\<close>

definition emits :: "(event \<Rightarrow> bool) \<Rightarrow> 'a action \<Rightarrow> bool" where
  "emits P m = (\<forall>w r w'. m w = (r, w') \<longrightarrow> (\<exists>new. trace w' = trace w @ new \<and> list_all P new))"

text \<open>
  \<open>connected c w\<close>: the connector holds a connection that is open, so that \<open>connect\<close>
  makes no call.
\<close>

definition connected :: "connector \<Rightarrow> world \<Rightarrow> bool" where
  "connected c w = (case connection w (cid c) of None \<Rightarrow> False | Some h \<Rightarrow> is_open w h)"

section \<open>Concrete configurations and worlds\<close>

definition demo_endpoint :: endpoint where
  "demo_endpoint =
     \<lparr>name = ''users'', url = ''https://api.example.com/users'', http_method = None,
      auth_type = Some ''bearer'', headers = Some 0, params = None,
      target_table = ''RAW.USERS'', enabled = None, bearer_token = None, api_key = None\<rparr>"

definition demo_config :: config where
  "demo_config =
     \<lparr>snowflake_section =
        \<lparr>account = ''acct'', user = ''etl'', password = ''secret'', warehouse = ''WH'',
         database = ''DB'', schema = ''RAW'', role = ''LOADER''\<rparr>,
      api_ingestion = Some \<lparr>rate_limit = None, endpoints = Some [demo_endpoint]\<rparr>\<rparr>"

definition demo_connector :: connector where
  "demo_connector = \<lparr>cid = 0, conf = demo_config\<rparr>"

definition demo_api :: api_ingestion_obj where
  "demo_api =
     \<lparr>api_snowflake = demo_connector,
      api_conf = \<lparr>rate_limit = None, endpoints = Some [demo_endpoint]\<rparr>\<rparr>"

text \<open>The same configuration with the endpoint switched off.\<close>

definition disabled_api :: api_ingestion_obj where
  "disabled_api =
     \<lparr>api_snowflake = demo_connector,
      api_conf = \<lparr>rate_limit = None, endpoints = Some [demo_endpoint\<lparr>enabled := Some False\<rparr>]\<rparr>\<rparr>"

text \<open>The same configuration with a negative \<open>retry_delay\<close>.\<close>

definition hasty_api :: api_ingestion_obj where
  "hasty_api =
     \<lparr>api_snowflake = demo_connector,
      api_conf = \<lparr>rate_limit = Some \<lparr>requests_per_second = None, retry_attempts = None,
                                    retry_delay = Some (- 1)\<rparr>,
                  endpoints = Some [demo_endpoint]\<rparr>\<rparr>"

definition demo_file_ingestion :: file_ingestion_obj where
  "demo_file_ingestion = \<lparr>file_snowflake = demo_connector\<rparr>"

definition demo_orchestrator :: orchestrator where
  "demo_orchestrator =
     \<lparr>orch_config = demo_config, snowflake = demo_connector,
      run_id = ''RUN_20240102_030405_123e4567''\<rparr>"

text \<open>
  A world with nothing connected, given the replies of the HTTP server and of the
  warehouse. The file of every path holds the three pieces of the example of the
  specification; serialising a row raises, as a timestamp is not JSON serialisable.
\<close>

definition demo_world :: "(nat \<Rightarrow> http_outcome) \<Rightarrow> (nat \<Rightarrow> db_outcome) \<Rightarrow> world" where
  "demo_world http db =
     \<lparr>trace = [], environ = (\<lambda>_. None), yaml_file = (\<lambda>_. Inr demo_config),
      text_file = (\<lambda>_. Inr ''INSERT ...; -- comment\<newline>; SELECT 1;''),
      clock = (\<lambda>_. \<lparr>year = 2024, month = 1, day = 2, hour = 3, minute = 4, second = 5\<rparr>),
      clock_reads = 0,
      uuid4 = (\<lambda>_. ''123e4567-e89b-12d3-a456-426614174000''), uuid_draws = 0,
      http_reply = http, http_calls = 0, db_reply = db, db_calls = 0,
      connection = (\<lambda>_. None), next_connector = 1,
      is_open = (\<lambda>_. False), next_handle = 0,
      header_dicts = (\<lambda>_. [])(0 := [(''Accept'', PyStr ''application/json'')]), next_dict = 1,
      max_sleep = 9223372036,
      frame_error = (\<lambda>_. None),
      row_json = (\<lambda>data ts run.
        map (\<lambda>_. Inl (Exception ''Object of type Timestamp is not JSON serializable'')) data)\<rparr>"

text \<open>The same world with a configuration file that has no \<open>api_ingestion\<close> section.\<close>

definition idle_world :: "(nat \<Rightarrow> db_outcome) \<Rightarrow> world" where
  "idle_world db =
     (demo_world (\<lambda>_. Body JNull) db)\<lparr>yaml_file := (\<lambda>_. Inr (demo_config\<lparr>api_ingestion := None\<rparr>))\<rparr>"

text \<open>The connector of \<open>demo_connector\<close> holding a connection that was closed elsewhere.\<close>

definition stale_world :: world where
  "stale_world = (demo_world (\<lambda>_. Body (JList [])) (\<lambda>_. Db_rows []))\<lparr>
     connection := (\<lambda>_. None)(0 := Some 0), next_handle := 1\<rparr>"

section \<open>Facts about the primitives\<close>

lemmas run_defs = seq_def return_def raise_def try_except_def try_finally_def emit_def
  db_call_def connect_def open_connection_def connect_params_def or_str_def now_def
  env_or_def format_str_def

lemmas demo_defs = demo_world_def demo_connector_def demo_config_def demo_endpoint_def
  demo_api_def demo_orchestrator_def disabled_api_def demo_file_ingestion_def idle_world_def
  hasty_api_def

lemma map_of_update: "map_of (AList.update k v al) k = Some v"
  by (simp add: update_conv')

lemma execute_statements_ok:
  "(\<forall>i < length (filter (\<lambda>s. s \<noteq> []) (map strip pieces)).
      \<exists>rs. db_reply w (db_calls w + i) = Db_rows rs) \<Longrightarrow>
   execute_statements h pieces w =
     (Inr (), w\<lparr>trace := trace w @ map (\<lambda>s. Execute h (Sql s)) (filter (\<lambda>s. s \<noteq> []) (map strip pieces)),
               db_calls := db_calls w + length (filter (\<lambda>s. s \<noteq> []) (map strip pieces))\<rparr>)"
proof (induction pieces arbitrary: w)
  case Nil
  then show ?case by simp
next
  case (Cons piece rest)
  show ?case
  proof (cases "strip piece = []")
    case True
    with Cons show ?thesis by simp
  next
    case False
    from Cons.prems False obtain rs where r0: "db_reply w (db_calls w) = Db_rows rs"
      by fastforce
    let ?w' = "(emit (Execute h (Sql (strip piece))) w)\<lparr>db_calls := Suc (db_calls w)\<rparr>"
    have step: "db_call (Execute h (Sql (strip piece))) w = (Inr rs, ?w')"
      by (simp add: db_call_def r0 Let_def)
    have "\<forall>i < length (filter (\<lambda>s. s \<noteq> []) (map strip rest)).
            \<exists>rs. db_reply ?w' (db_calls ?w' + i) = Db_rows rs"
    proof (intro allI impI)
      fix i assume "i < length (filter (\<lambda>s. s \<noteq> []) (map strip rest))"
      with False have "Suc i < length (filter (\<lambda>s. s \<noteq> []) (map strip (piece # rest)))"
        by simp
      with Cons.prems have "\<exists>rs. db_reply w (db_calls w + Suc i) = Db_rows rs"
        by blast
      then show "\<exists>rs. db_reply ?w' (db_calls ?w' + i) = Db_rows rs"
        by (simp add: emit_def)
    qed
    from Cons.IH [OF this] False step show ?thesis
      by (simp add: emit_def)
  qed
qed

lemma execute_statements_fail:
  "j < length (filter (\<lambda>s. s \<noteq> []) (map strip pieces)) \<Longrightarrow>
   (\<forall>i < j. \<exists>rs. db_reply w (db_calls w + i) = Db_rows rs) \<Longrightarrow>
   db_reply w (db_calls w + j) = Db_raise m \<Longrightarrow>
   execute_statements h pieces w =
     (Inl (Exception m),
      w\<lparr>trace := trace w @ map (\<lambda>s. Execute h (Sql s))
                            (take (Suc j) (filter (\<lambda>s. s \<noteq> []) (map strip pieces))),
        db_calls := db_calls w + Suc j\<rparr>)"
proof (induction pieces arbitrary: w j)
  case Nil
  then show ?case by simp
next
  case (Cons piece rest)
  show ?case
  proof (cases "strip piece = []")
    case True
    with Cons show ?thesis by simp
  next
    case False
    let ?w' = "(emit (Execute h (Sql (strip piece))) w)\<lparr>db_calls := Suc (db_calls w)\<rparr>"
    show ?thesis
    proof (cases j)
      case 0
      with Cons.prems have "db_reply w (db_calls w) = Db_raise m" by simp
      with False 0 show ?thesis
        by (simp add: db_call_def Let_def emit_def)
    next
      case (Suc j')
      with Cons.prems obtain rs where r0: "db_reply w (db_calls w) = Db_rows rs"
        by fastforce
      have step: "db_call (Execute h (Sql (strip piece))) w = (Inr rs, ?w')"
        by (simp add: db_call_def r0 Let_def)
      have a: "j' < length (filter (\<lambda>s. s \<noteq> []) (map strip rest))"
        using Cons.prems(1) False Suc by simp
      have b: "\<forall>i < j'. \<exists>rs. db_reply ?w' (db_calls ?w' + i) = Db_rows rs"
      proof (intro allI impI)
        fix i assume "i < j'"
        with Cons.prems(2) Suc have "\<exists>rs. db_reply w (db_calls w + Suc i) = Db_rows rs"
          by (metis Suc_less_eq)
        then show "\<exists>rs. db_reply ?w' (db_calls ?w' + i) = Db_rows rs"
          by (simp add: emit_def)
      qed
      have c: "db_reply ?w' (db_calls ?w' + j') = Db_raise m"
        using Cons.prems(3) Suc by (simp add: emit_def)
      from Cons.IH [OF a b c] False step Suc show ?thesis
        by (simp add: emit_def)
    qed
  qed
qed

lemma connect_keeps:
  "connect c w = (r, w1) \<Longrightarrow>
   db_reply w1 = db_reply w \<and> text_file w1 = text_file w \<and> db_calls w \<le> db_calls w1"
  by (auto simp: connect_def open_connection_def db_call_def emit_def Let_def
           split: option.splits db_outcome.splits if_splits)

lemma py_sleep_keeps:
  "py_sleep d w = (r, w') \<Longrightarrow> http_reply w' = http_reply w \<and> http_calls w' = http_calls w"
  by (auto simp: py_sleep_def emit_def split: if_splits)

lemma fetch_attempts_result:
  "fetch_attempts m u hs ps rl mr d as w = (Inr (Some xs), w') \<Longrightarrow>
   \<exists>k data. http_reply w k = Body data \<and> xs = normalize_response data"
proof (induction as arbitrary: w)
  case Nil
  then show ?case by simp
next
  case (Cons a as)
  show ?case
  proof (cases "requests_per_second_of rl = 0")
    case True
    with Cons.prems show ?thesis by simp
  next
    case False
    obtain r1 w1 where s1: "py_sleep (1 / requests_per_second_of rl) w = (r1, w1)"
      by (cases "py_sleep (1 / requests_per_second_of rl) w")
    from py_sleep_keeps [OF s1] have k1: "http_reply w1 = http_reply w" by simp
    show ?thesis
    proof (cases "http_reply w (http_calls w1)")
      case (Body data)
      with Cons.prems False s1 k1 show ?thesis
        by (auto simp: http_request_def split: sum.splits)
    next
      case (Raises e)
      let ?w2 = "(emit (Http_request m u hs ps) w1)\<lparr>http_calls := Suc (http_calls w1)\<rparr>"
      obtain r3 w3 where s3: "py_sleep d ?w2 = (r3, w3)"
        by (cases "py_sleep d ?w2")
      from py_sleep_keeps [OF s3] k1 have k3: "http_reply w3 = http_reply w"
        by (simp add: emit_def)
      from Cons.prems False s1 k1 Raises s3 have "fetch_attempts m u hs ps rl mr d as w3 = (Inr (Some xs), w')"
        by (auto simp: http_request_def split: sum.splits exn.splits if_splits)
      from Cons.IH [OF this] k3 show ?thesis by simp
    qed
  qed
qed

lemma get_auth_headers_keeps:
  "get_auth_headers ep w = (a, w1) \<Longrightarrow>
   http_reply w1 = http_reply w \<and> http_calls w1 = http_calls w \<and> trace w1 = trace w \<and>
   max_sleep w1 = max_sleep w"
  by (auto simp: get_auth_headers_def Let_def split: if_splits)

lemma fetch_api_data_result:
  "fetch_api_data self ep w = (Inr (Some xs), w') \<Longrightarrow>
   \<exists>k data. http_reply w k = Body data \<and> xs = normalize_response data"
proof -
  assume a: "fetch_api_data self ep w = (Inr (Some xs), w')"
  obtain hs w1 where g: "get_auth_headers ep w = (hs, w1)"
    by (cases "get_auth_headers ep w")
  from a g have "fetch_attempts (method_of ep) (url ep) (header_dicts w1 hs) (params_of ep)
      (rate_limit_of self) (max_retries_of self) (retry_delay_of self)
      [0..<nat (max_retries_of self)] w1 = (Inr (Some xs), w')"
    by (simp add: fetch_api_data_def)
  from fetch_attempts_result [OF this] get_auth_headers_keeps [OF g] show ?thesis
    by simp
qed


lemma fetch_attempts_success:
  assumes "j < length as"
      and "\<forall>i<j. \<exists>msg. http_reply w (http_calls w + i) = Raises (RequestException msg)"
      and "http_reply w (http_calls w + j) = Body body"
      and "\<forall>i<j. int (as ! i) < mr - 1"
      and "0 < requests_per_second_of rl" and "1 / requests_per_second_of rl \<le> max_sleep w"
      and "0 < j \<longrightarrow> 0 \<le> d \<and> d \<le> max_sleep w"
  shows "fst (fetch_attempts m u hs ps rl mr d as w) = Inr (Some (normalize_response body))"
  using assms
proof (induction as arbitrary: w j)
  case Nil
  then show ?case by simp
next
  case (Cons a as)
  let ?rps = "requests_per_second_of rl"
  let ?w1 = "emit (Sleep (1 / ?rps)) w"
  let ?w2 = "(emit (Http_request m u hs ps) ?w1)\<lparr>http_calls := Suc (http_calls ?w1)\<rparr>"
  let ?w3 = "emit (Sleep d) ?w2"
  define x where "x = 1 / ?rps"
  from Cons.prems(5) Cons.prems(6) have x: "0 \<le> x" "x \<le> max_sleep w"
    by (simp_all add: x_def)
  then have "\<not> (x < - max_sleep w \<or> max_sleep w < x)" "\<not> x < 0"
    by linarith+
  then have "py_sleep x w = (Inr (), emit (Sleep x) w)"
    by (simp add: py_sleep_def)
  then have s1: "py_sleep (1 / ?rps) w = (Inr (), ?w1)"
    unfolding x_def .
  show ?case
  proof (cases j)
    case 0
    with Cons.prems(3) have "http_reply w (http_calls w) = Body body" by simp
    then have rq: "http_request m u hs ps ?w1 = (Body body, ?w2)"
      by (simp add: http_request_def emit_def)
    with s1 Cons.prems(5) show ?thesis by simp
  next
    case (Suc j')
    with Cons.prems(2) obtain msg where "http_reply w (http_calls w) = Raises (RequestException msg)"
      by fastforce
    then have rq: "http_request m u hs ps ?w1 = (Raises (RequestException msg), ?w2)"
      by (simp add: http_request_def emit_def)
    from Cons.prems(4) Suc have lt: "int a < mr - 1" by fastforce
    have m2: "max_sleep ?w2 = max_sleep w"
      by (simp add: emit_def)
    from Cons.prems(7) Suc m2 have s3: "py_sleep d ?w2 = (Inr (), ?w3)"
      unfolding py_sleep_def by auto
    have unfold: "fetch_attempts m u hs ps rl mr d (a # as) w = fetch_attempts m u hs ps rl mr d as ?w3"
      using s1 rq s3 lt Cons.prems(5) by simp
    have a1: "j' < length as"
      using Cons.prems(1) Suc by simp
    have a2: "\<forall>i<j'. \<exists>msg. http_reply ?w3 (http_calls ?w3 + i) = Raises (RequestException msg)"
    proof (intro allI impI)
      fix i assume "i < j'"
      then have "Suc i < j" using Suc by simp
      with Cons.prems(2) have "\<exists>msg. http_reply w (http_calls w + Suc i) = Raises (RequestException msg)"
        by blast
      then show "\<exists>msg. http_reply ?w3 (http_calls ?w3 + i) = Raises (RequestException msg)"
        by (simp add: emit_def)
    qed
    have a3: "http_reply ?w3 (http_calls ?w3 + j') = Body body"
      using Cons.prems(3) Suc by (simp add: emit_def)
    have a4: "\<forall>i<j'. int (as ! i) < mr - 1"
    proof (intro allI impI)
      fix i assume "i < j'"
      then have "Suc i < j" using Suc by simp
      with Cons.prems(4) have "int ((a # as) ! Suc i) < mr - 1" by blast
      then show "int (as ! i) < mr - 1" by simp
    qed
    have a6: "1 / ?rps \<le> max_sleep ?w3"
      using Cons.prems(6) by (simp add: emit_def)
    have a7: "0 < j' \<longrightarrow> 0 \<le> d \<and> d \<le> max_sleep ?w3"
      using Cons.prems(7) Suc by (simp add: emit_def)
    from Cons.IH [OF a1 a2 a3 a4 Cons.prems(5) a6 a7] show ?thesis
      unfolding unfold .
  qed
qed

lemma fetch_attempts_decoded:
  "fetch_attempts m u hs ps rl mr d as w = (r, w') \<Longrightarrow>
   http_calls w \<le> k \<Longrightarrow> k < http_calls w' \<Longrightarrow> http_reply w k = Body body \<Longrightarrow>
   r = Inr (Some (normalize_response body))"
proof (induction as arbitrary: w)
  case Nil
  then show ?case by simp
next
  case (Cons a as)
  let ?rps = "requests_per_second_of rl"
  let ?w1 = "emit (Sleep (1 / ?rps)) w"
  let ?w2 = "(emit (Http_request m u hs ps) ?w1)\<lparr>http_calls := Suc (http_calls ?w1)\<rparr>"
  let ?w3 = "emit (Sleep d) ?w2"
  show ?case
  proof (cases "?rps = 0 \<or> fst (py_sleep (1 / ?rps) w) \<noteq> Inr ()")
    case True
    with Cons.prems(1) have "w' = w"
      by (auto simp: py_sleep_def split: if_splits)
    with Cons.prems(2) Cons.prems(3) show ?thesis by simp
  next
    case False
    then have s1: "py_sleep (1 / ?rps) w = (Inr (), ?w1)" and nz: "?rps \<noteq> 0"
      by (auto simp: py_sleep_def split: if_splits)
    have rq: "http_request m u hs ps ?w1 = (http_reply w (http_calls w), ?w2)"
      by (simp add: http_request_def emit_def)
    show ?thesis
    proof (cases "\<exists>msg. http_reply w (http_calls w) = Raises (RequestException msg) \<and>
                   int a < mr - 1 \<and> fst (py_sleep d ?w2) = Inr ()")
      case True
      then have s3: "py_sleep d ?w2 = (Inr (), ?w3)"
        by (auto simp: py_sleep_def split: if_splits)
      from True s1 nz rq s3 Cons.prems(1)
      have rec: "fetch_attempts m u hs ps rl mr d as ?w3 = (r, w')"
        by auto
      from True Cons.prems(4) have "k \<noteq> http_calls w"
        by auto
      with Cons.prems(2) have k1: "http_calls ?w3 \<le> k"
        by (simp add: emit_def)
      have k3: "http_reply ?w3 k = Body body"
        using Cons.prems(4) by (simp add: emit_def)
      from Cons.IH [OF rec k1 Cons.prems(3) k3] show ?thesis .
    next
      case no: False
      from no s1 nz rq Cons.prems(1) have w2: "w' = ?w2"
        by (auto simp: py_sleep_def split: http_outcome.splits exn.splits if_splits)
      with Cons.prems(2) Cons.prems(3) have k: "k = http_calls w"
        by (simp add: emit_def)
      with Cons.prems(4) have "http_reply w (http_calls w) = Body body"
        by simp
      with s1 nz rq Cons.prems(1) show ?thesis
        by auto
    qed
  qed
qed

lemma fetch_api_data_decoded:
  assumes "fetch_api_data self endpoint_config w = (r, w')"
      and "http_calls w \<le> k" and "k < http_calls w'" and "http_reply w k = Body body"
  shows "r = Inr (Some (normalize_response body))"
proof -
  obtain hs w1 where g: "get_auth_headers endpoint_config w = (hs, w1)"
    by (cases "get_auth_headers endpoint_config w")
  from get_auth_headers_keeps [OF g]
  have k: "http_reply w1 = http_reply w" "http_calls w1 = http_calls w"
    by simp_all
  from assms(1) g have "fetch_attempts (method_of endpoint_config) (url endpoint_config)
      (header_dicts w1 hs) (params_of endpoint_config) (rate_limit_of self) (max_retries_of self)
      (retry_delay_of self) [0..<nat (max_retries_of self)] w1 = (r, w')"
    by (simp add: fetch_api_data_def)
  from fetch_attempts_decoded [OF this, of k body] assms k show ?thesis
    by simp
qed

lemma fetch_api_data_success:
  assumes "j < nat (max_retries_of self)"
      and "\<forall>i<j. \<exists>msg. http_reply w (http_calls w + i) = Raises (RequestException msg)"
      and "http_reply w (http_calls w + j) = Body body"
      and "0 < requests_per_second_of (rate_limit_of self)"
      and "1 / requests_per_second_of (rate_limit_of self) \<le> max_sleep w"
      and "0 < j \<longrightarrow> 0 \<le> retry_delay_of self \<and> retry_delay_of self \<le> max_sleep w"
  shows "fst (fetch_api_data self endpoint_config w) = Inr (Some (normalize_response body))"
proof -
  obtain hs w1 where g: "get_auth_headers endpoint_config w = (hs, w1)"
    by (cases "get_auth_headers endpoint_config w")
  from get_auth_headers_keeps [OF g]
  have k: "http_reply w1 = http_reply w" "http_calls w1 = http_calls w" "max_sleep w1 = max_sleep w"
    by simp_all
  have a1: "j < length [0..<nat (max_retries_of self)]"
    using assms(1) by simp
  have a4: "\<forall>i<j. int ([0..<nat (max_retries_of self)] ! i) < max_retries_of self - 1"
    using assms(1) by auto
  from fetch_attempts_success [of j "[0..<nat (max_retries_of self)]" w1 body "max_retries_of self"
      "rate_limit_of self" "retry_delay_of self" "method_of endpoint_config" "url endpoint_config"
      "header_dicts w1 hs" "params_of endpoint_config"] a1 a4 assms k
  have "fst (fetch_attempts (method_of endpoint_config) (url endpoint_config) (header_dicts w1 hs)
      (params_of endpoint_config) (rate_limit_of self) (max_retries_of self) (retry_delay_of self)
      [0..<nat (max_retries_of self)] w1) = Inr (Some (normalize_response body))"
    by simp
  with g show ?thesis
    by (simp add: fetch_api_data_def)
qed




subsection \<open>What the actions add to the trace\<close>

lemma emitsD:
  "emits P m \<Longrightarrow> m w = (r, w') \<Longrightarrow> \<exists>new. trace w' = trace w @ new \<and> list_all P new"
  unfolding emits_def by blast

lemma emitsI:
  "(\<And>w r w'. m w = (r, w') \<Longrightarrow> \<exists>new. trace w' = trace w @ new \<and> list_all P new) \<Longrightarrow> emits P m"
  unfolding emits_def by blast

lemma emits_mono: "emits P m \<Longrightarrow> (\<And>e. P e \<Longrightarrow> Q e) \<Longrightarrow> emits Q m"
  unfolding emits_def list_all_iff by blast

lemma emits_return: "emits P (return x)"
  by (simp add: emits_def return_def)

lemma emits_pure: "emits P (\<lambda>w. (f w, w))"
  by (simp add: emits_def)

lemma emits_emit: "P ev \<Longrightarrow> emits P (\<lambda>w. (Inr (), emit ev w))"
  by (simp add: emits_def emit_def)

lemma emits_db_call: "P ev \<Longrightarrow> emits P (db_call ev)"
  by (auto simp: emits_def db_call_def emit_def Let_def split: db_outcome.splits)

lemma emits_seq:
  assumes "emits P m" and "\<And>x. emits P (f x)"
  shows "emits P (seq m f)"
proof (rule emitsI)
  fix w r w' assume a: "seq m f w = (r, w')"
  obtain r1 w1 where m: "m w = (r1, w1)" by (cases "m w")
  from emitsD [OF assms(1) m] obtain n1 where n1: "trace w1 = trace w @ n1" "list_all P n1"
    by blast
  show "\<exists>new. trace w' = trace w @ new \<and> list_all P new"
  proof (cases r1)
    case (Inl e)
    with a m n1 show ?thesis by (auto simp: seq_def)
  next
    case (Inr x)
    with a m have "f x w1 = (r, w')" by (simp add: seq_def)
    from emitsD [OF assms(2) this] obtain n2 where "trace w' = trace w1 @ n2" "list_all P n2"
      by blast
    with n1 have "trace w' = trace w @ (n1 @ n2) \<and> list_all P (n1 @ n2)" by simp
    then show ?thesis by blast
  qed
qed

lemma emits_try_except:
  assumes "emits P m" and "\<And>e. emits P (h e)"
  shows "emits P (try_except m h)"
proof (rule emitsI)
  fix w r w' assume a: "try_except m h w = (r, w')"
  obtain r1 w1 where m: "m w = (r1, w1)" by (cases "m w")
  from emitsD [OF assms(1) m] obtain n1 where n1: "trace w1 = trace w @ n1" "list_all P n1"
    by blast
  show "\<exists>new. trace w' = trace w @ new \<and> list_all P new"
  proof (cases r1)
    case (Inr x)
    with a m n1 show ?thesis by (auto simp: try_except_def)
  next
    case (Inl e)
    with a m have "h e w1 = (r, w')" by (simp add: try_except_def)
    from emitsD [OF assms(2) this] obtain n2 where "trace w' = trace w1 @ n2" "list_all P n2"
      by blast
    with n1 have "trace w' = trace w @ (n1 @ n2) \<and> list_all P (n1 @ n2)" by simp
    then show ?thesis by blast
  qed
qed

lemma emits_try_finally:
  assumes "emits P m" and "P ev"
  shows "emits P (try_finally m (emit ev))"
proof (rule emitsI)
  fix w r w' assume a: "try_finally m (emit ev) w = (r, w')"
  obtain r1 w1 where m: "m w = (r1, w1)" by (cases "m w")
  from emitsD [OF assms(1) m] obtain n1 where n1: "trace w1 = trace w @ n1" "list_all P n1"
    by blast
  from a m have "trace w' = trace w1 @ [ev]" by (auto simp: try_finally_def emit_def)
  with n1 assms(2) have "trace w' = trace w @ (n1 @ [ev]) \<and> list_all P (n1 @ [ev])" by simp
  then show "\<exists>new. trace w' = trace w @ new \<and> list_all P new" by blast
qed

lemma emits_connect: "(\<And>ps. P (Connect ps)) \<Longrightarrow> emits P (connect c)"
  by (auto simp: emits_def connect_def open_connection_def db_call_def emit_def Let_def
        split: option.splits db_outcome.splits if_splits)

lemma emits_now: "emits P (\<lambda>w. case now w of (ts, w') \<Rightarrow> (Inr ts, w'))"
  by (simp add: emits_def now_def)

lemma emits_new_connector: "emits P (new_connector path)"
  by (auto simp: emits_def new_connector_def split: sum.splits)

lemma emits_py_sleep: "(\<And>x. P (Sleep x)) \<Longrightarrow> emits P (py_sleep d)"
  by (auto simp: emits_def py_sleep_def emit_def split: if_splits)

lemma plain_simps [simp]:
  "plain_event (Sleep x)" "plain_event (Http_request m u hs ps)" "plain_event (Connect cs)"
  "plain_event (Cursor_open h)" "plain_event (Cursor_close h)" "plain_event (Commit h)"
  "plain_event (Close h)" "plain_event (Execute h (Create_table t))"
  "plain_event (Execute h (Insert_row t js ts run src))" "plain_event (Execute h (Sql q))"
  "plain_event (Execute h (Select_pipe_status p))"
  by (simp_all add: plain_event_def)

lemma emits_fetch_attempts: "emits plain_event (fetch_attempts m u hs ps rl mr d as)"
proof (induction as)
  case Nil
  show ?case by (simp add: emits_def)
next
  case (Cons a as)
  show ?case
  proof (rule emitsI)
    fix w r w' assume run: "fetch_attempts m u hs ps rl mr d (a # as) w = (r, w')"
    show "\<exists>new. trace w' = trace w @ new \<and> list_all plain_event new"
    proof (cases "requests_per_second_of rl = 0 \<or> 1 / requests_per_second_of rl < 0 \<or>
        1 / requests_per_second_of rl < - max_sleep w \<or> max_sleep w < 1 / requests_per_second_of rl")
      case True
      with run show ?thesis by (auto simp: py_sleep_def split: if_splits)
    next
      case False
      let ?w1 = "emit (Sleep (1 / requests_per_second_of rl)) w"
      let ?w2 = "(emit (Http_request m u hs ps) ?w1)\<lparr>http_calls := Suc (http_calls ?w1)\<rparr>"
      have t2: "trace ?w2 = trace w @ [Sleep (1 / requests_per_second_of rl), Http_request m u hs ps]"
        by (simp add: emit_def)
      show ?thesis
      proof (cases "\<exists>msg. http_reply w (http_calls w) = Raises (RequestException msg) \<and>
                     int a < mr - 1 \<and> \<not> d < 0 \<and> \<not> d < - max_sleep w \<and> \<not> max_sleep w < d")
        case True
        let ?w3 = "emit (Sleep d) ?w2"
        from True False run have "fetch_attempts m u hs ps rl mr d as ?w3 = (r, w')"
          by (auto simp: py_sleep_def http_request_def emit_def)
        from emitsD [OF Cons.IH this] obtain n where "trace w' = trace ?w3 @ n" "list_all plain_event n"
          by blast
        then have "trace w' = trace w @ ([Sleep (1 / requests_per_second_of rl), Http_request m u hs ps, Sleep d] @ n)
            \<and> list_all plain_event ([Sleep (1 / requests_per_second_of rl), Http_request m u hs ps, Sleep d] @ n)"
          by (simp add: emit_def)
        then show ?thesis by blast
      next
        case no: False
        from no False run have "w' = ?w2"
          by (auto simp: py_sleep_def http_request_def emit_def
                split: http_outcome.splits exn.splits if_splits)
        with t2 have "trace w' = trace w @ [Sleep (1 / requests_per_second_of rl), Http_request m u hs ps]
            \<and> list_all plain_event [Sleep (1 / requests_per_second_of rl), Http_request m u hs ps]"
          by simp
        then show ?thesis by blast
      qed
    qed
  qed
qed

lemma emits_fetch_api_data: "emits plain_event (fetch_api_data self ep)"
proof (rule emitsI)
  fix w r w' assume run: "fetch_api_data self ep w = (r, w')"
  obtain hs w1 where g: "get_auth_headers ep w = (hs, w1)" by (cases "get_auth_headers ep w")
  from run g have "fetch_attempts (method_of ep) (url ep) (header_dicts w1 hs) (params_of ep)
      (rate_limit_of self) (max_retries_of self) (retry_delay_of self)
      [0..<nat (max_retries_of self)] w1 = (r, w')"
    by (simp add: fetch_api_data_def)
  from emitsD [OF emits_fetch_attempts this] get_auth_headers_keeps [OF g]
  show "\<exists>new. trace w' = trace w @ new \<and> list_all plain_event new"
    by simp
qed

lemma emits_insert_rows: "emits plain_event (insert_rows h target ts run rows)"
proof (induction rows)
  case Nil
  show ?case by (simp add: emits_def)
next
  case (Cons row rows)
  show ?case
  proof (cases row)
    case (Inl e)
    then show ?thesis by (simp add: emits_def)
  next
    case (Inr js)
    have "insert_rows h target ts run (row # rows) =
        seq (db_call (Execute h (Insert_row target js ts run ''API''))) (\<lambda>_. insert_rows h target ts run rows)"
      using Inr by (auto simp: seq_def fun_eq_iff split: prod.splits sum.splits)
    then show ?thesis
      using Cons.IH by (simp add: emits_seq emits_db_call)
  qed
qed

lemma emits_row_loop:
  "emits plain_event (\<lambda>w. insert_rows conn target ts run (row_json w data ts run) w)"
  using emits_insert_rows unfolding emits_def by blast

lemma emits_frame_error:
  "emits P (\<lambda>w. case frame_error w data of Some e \<Rightarrow> (Inl e, w) | None \<Rightarrow> (Inr (), w))"
  by (auto simp: emits_def split: option.splits)

lemma emits_load_to_snowflake: "emits plain_event (load_to_snowflake self data target run)"
proof (cases "data = []")
  case True
  then show ?thesis by (simp add: load_to_snowflake_def emits_return)
next
  case False
  then show ?thesis
    unfolding load_to_snowflake_def
    by (simp only: if_False)
       (intro emits_return emits_try_except emits_seq emits_connect emits_emit emits_db_call
          emits_now emits_row_loop emits_frame_error plain_simps)
qed

lemma emits_ingest_endpoint: "emits plain_event (ingest_endpoint self n)"
proof (rule emitsI)
  fix w r w' assume run: "ingest_endpoint self n w = (r, w')"
  show "\<exists>new. trace w' = trace w @ new \<and> list_all plain_event new"
  proof (cases "find (\<lambda>ep. name ep = n \<and> is_enabled ep) (endpoints_of self)")
    case None
    with run show ?thesis by (simp add: ingest_endpoint_def)
  next
    case (Some ep)
    let ?w1 = "w\<lparr>clock_reads := Suc (clock_reads w)\<rparr>"
    obtain r2 w2 where f: "fetch_api_data self ep ?w1 = (r2, w2)"
      by (cases "fetch_api_data self ep ?w1")
    from emitsD [OF emits_fetch_api_data f] obtain n1 where n1: "trace w2 = trace w @ n1" "list_all plain_event n1"
      by auto
    show ?thesis
    proof (cases "\<exists>data. r2 = Inr (Some data)")
      case False
      with run Some f have "w' = w2"
        by (auto simp: ingest_endpoint_def now_def Let_def split: sum.splits option.splits)
      with n1 show ?thesis by blast
    next
      case True
      then obtain data where "r2 = Inr (Some data)" by blast
      with run Some f have "load_to_snowflake self data (target_table ep)
          (''API_'' @ n @ ''_'' @ strftime_compact (clock w (clock_reads w))) w2 = (r, w')"
        by (simp add: ingest_endpoint_def now_def Let_def)
      from emitsD [OF emits_load_to_snowflake this] obtain n2 where "trace w' = trace w2 @ n2" "list_all plain_event n2"
        by blast
      with n1 have "trace w' = trace w @ (n1 @ n2) \<and> list_all plain_event (n1 @ n2)" by simp
      then show ?thesis by blast
    qed
  qed
qed

lemma emits_ingest_each: "emits plain_event (ingest_each self eps results)"
proof (induction eps arbitrary: results)
  case Nil
  show ?case by (simp add: emits_def)
next
  case (Cons ep eps)
  show ?case
  proof (cases "is_enabled ep")
    case False
    then have "ingest_each self (ep # eps) results = ingest_each self eps results"
      by (simp add: fun_eq_iff)
    with Cons.IH show ?thesis by simp
  next
    case True
    then have "ingest_each self (ep # eps) results =
        seq (ingest_endpoint self (name ep)) (\<lambda>ok. ingest_each self eps (AList.update (name ep) ok results))"
      by (auto simp: seq_def fun_eq_iff split: prod.splits sum.splits)
    then show ?thesis
      using Cons.IH by (simp add: emits_seq emits_ingest_endpoint)
  qed
qed

lemma emits_new_api_ingestion: "emits plain_event (new_api_ingestion path)"
  unfolding new_api_ingestion_def
  by (intro emits_seq emits_pure emits_new_connector emits_return)

lemma stage_simps [simp]:
  "plain_event e \<Longrightarrow> stage_event st rid e"
  "stage_event st rid (Execute h (Log_insert st rid))"
  "stage_event st rid (Execute h (Log_update st rid s rp rf em))"
  "stage_event ''TRANSFORMATION'' rid (Execute h (Call_clean_raw_data r))"
  "stage_event ''TRANSFORMATION'' rid (Execute h (Call_remove_duplicates r))"
  "stage_event ''TRANSFORMATION'' rid (Execute h (Call_apply_business_transforms r))"
  "stage_event ''VALIDATION'' rid (Execute h (Call_run_all_validations r))"
  "stage_event ''VALIDATION'' rid (Execute h (Select_failed_checks r))"
  by (simp_all add: stage_event_def plain_event_def)

lemma emits_log_pipeline_start:
  "emits (stage_event st (run_id self)) (log_pipeline_start self st)"
  unfolding log_pipeline_start_def
  by (intro emits_seq emits_connect emits_emit emits_db_call) simp_all

lemma emits_log_pipeline_end:
  "emits (stage_event st (run_id self)) (log_pipeline_end self st s rp rf em)"
  unfolding log_pipeline_end_def
  by (intro emits_seq emits_connect emits_emit emits_db_call) simp_all

lemma emits_run_ingestion:
  "emits (stage_event ''INGESTION'' (run_id self)) (run_ingestion self)"
  unfolding run_ingestion_def ingestion_body_def ingest_all_endpoints_def Let_def
  by (intro emits_seq emits_try_except emits_return emits_log_pipeline_start emits_log_pipeline_end
        emits_mono [OF emits_new_api_ingestion] emits_mono [OF emits_ingest_each]) simp_all

lemma emits_run_transformation:
  "emits (stage_event ''TRANSFORMATION'' (run_id self)) (run_transformation self)"
  unfolding run_transformation_def transformation_body_def
  by (intro emits_seq emits_try_except emits_return emits_log_pipeline_start emits_log_pipeline_end
        emits_connect emits_emit emits_db_call) simp_all

lemma emits_run_validation:
  "emits (stage_event ''VALIDATION'' (run_id self)) (run_validation self)"
  unfolding run_validation_def validation_body_def Let_def
  by (intro emits_seq emits_try_except emits_return emits_log_pipeline_start emits_log_pipeline_end
        emits_connect emits_emit emits_db_call emits_pure) simp_all


lemma emits_run_full_pipeline:
  "emits (\<lambda>e. log_run_id e = None \<or> log_run_id e = Some (run_id self)) (run_full_pipeline self)"
  unfolding run_full_pipeline_def Let_def
  by (intro emits_seq emits_mono [OF emits_run_ingestion] emits_mono [OF emits_run_transformation]
        emits_mono [OF emits_run_validation])
     (auto simp: stage_event_def emits_return intro!: emits_seq emits_return
        emits_mono [OF emits_run_transformation] emits_mono [OF emits_run_validation])


subsection \<open>Connections\<close>

lemma connect_connected:
  "connected c w \<Longrightarrow> \<exists>h. connection w (cid c) = Some h \<and> is_open w h \<and> connect c w = (Inr h, w)"
  by (auto simp: connected_def connect_def split: option.splits)

lemma connect_result:
  "connect c w = (Inr h, w1) \<Longrightarrow>
   connection w1 (cid c) = Some h \<and> is_open w1 h \<and> db_reply w1 = db_reply w"
  by (auto simp: connect_def open_connection_def db_call_def emit_def Let_def
        split: option.splits db_outcome.splits if_splits)

lemma connect_trace:
  "connect c w = (Inr h, w0) \<Longrightarrow>
   (trace w0 = trace w \<or> (\<exists>ps. trace w0 = trace w @ [Connect ps])) \<and>
   connection w0 (cid c) = Some h \<and> is_open w0 h"
  by (auto simp: connect_def open_connection_def db_call_def emit_def Let_def
        split: option.splits db_outcome.splits if_splits)

lemma log_pipeline_start_trace:
  assumes "log_pipeline_start self n w = (Inr (), w1)"
  shows "\<exists>h pre. (pre = [] \<or> (\<exists>ps. pre = [Connect ps])) \<and>
           connection w1 (cid (snowflake self)) = Some h \<and>
           trace w1 = trace w @ pre @
             [Cursor_open h, Execute h (Log_insert n (run_id self)), Commit h, Cursor_close h]"
proof -
  obtain r0 w0 where c: "connect (snowflake self) w = (r0, w0)"
    by (cases "connect (snowflake self) w")
  with assms obtain h where h: "r0 = Inr h"
    by (cases r0) (auto simp: log_pipeline_start_def seq_def)
  from connect_trace [of "snowflake self" w h w0] c h
  obtain pre where pre: "pre = [] \<or> (\<exists>ps. pre = [Connect ps])" "trace w0 = trace w @ pre"
    and k: "connection w0 (cid (snowflake self)) = Some h"
    by auto
  from assms c h k have "connection w1 (cid (snowflake self)) = Some h \<and>
      trace w1 = trace w0 @
        [Cursor_open h, Execute h (Log_insert n (run_id self)), Commit h, Cursor_close h]"
    by (auto simp: log_pipeline_start_def seq_def db_call_def emit_def Let_def
          split: db_outcome.splits)
  with pre show ?thesis
    by auto
qed

lemma log_pipeline_end_trace:
  assumes "log_pipeline_end self n s rp rf em w = (Inr (), w1)"
  shows "\<exists>h pre. (pre = [] \<or> (\<exists>ps. pre = [Connect ps])) \<and>
           trace w1 = trace w @ pre @
             [Cursor_open h, Execute h (Log_update n (run_id self) s rp rf em), Commit h,
              Cursor_close h]"
proof -
  obtain r0 w0 where c: "connect (snowflake self) w = (r0, w0)"
    by (cases "connect (snowflake self) w")
  with assms obtain h where h: "r0 = Inr h"
    by (cases r0) (auto simp: log_pipeline_end_def seq_def)
  from connect_trace [of "snowflake self" w h w0] c h
  obtain pre where pre: "pre = [] \<or> (\<exists>ps. pre = [Connect ps])" "trace w0 = trace w @ pre"
    by auto
  from assms c h have "trace w1 = trace w0 @
        [Cursor_open h, Execute h (Log_update n (run_id self) s rp rf em), Commit h, Cursor_close h]"
    by (auto simp: log_pipeline_end_def seq_def db_call_def emit_def Let_def
          split: db_outcome.splits)
  with pre show ?thesis
    by auto
qed

lemma log_pipeline_start_connected:
  assumes "log_pipeline_start self n w = (Inr (), w1)"
  shows "connected (snowflake self) w1 \<and> db_reply w1 = db_reply w"
proof -
  obtain r0 w0 where c: "connect (snowflake self) w = (r0, w0)"
    by (cases "connect (snowflake self) w")
  with assms obtain h where h: "r0 = Inr h"
    by (cases r0) (auto simp: log_pipeline_start_def seq_def)
  from connect_result [of "snowflake self" w h w0] c h
  have k: "connection w0 (cid (snowflake self)) = Some h" "is_open w0 h" "db_reply w0 = db_reply w"
    by simp_all
  from assms c h k show ?thesis
    by (auto simp: log_pipeline_start_def seq_def db_call_def emit_def Let_def connected_def
          split: db_outcome.splits)
qed


lemmas eval_defs = run_defs demo_defs log_pipeline_start_def log_pipeline_end_def
  run_validation_def validation_body_def greater_than_zero_def failed_message_def
  fetchone_def first_cell_def

lemmas num_defs = str_int_def str_nat.simps digit_char_def zero_pad_def strftime_compact_def


lemmas ingest_defs = run_ingestion_def ingestion_body_def new_api_ingestion_def new_connector_def
  ingest_all_endpoints_def ingest_endpoint_def endpoints_of_def is_enabled_def fetch_api_data_def
  get_auth_headers_def load_to_snowflake_def max_retries_of_def rate_limit_of_def
  requests_per_second_of_def retry_delay_of_def method_of_def params_of_def upt_rec
  py_sleep_def http_request_def run_transformation_def transformation_body_def


section \<open>The retry loop of the API ingestion\<close>




section \<open>The response formats\<close>

text \<open>
  Claim C3. \<open>_fetch_api_data\<close> returns the normalisation of the body that its request
  decoded: whenever one of the requests it made returned a body, its result is that body
  normalised. In particular, when the first \<open>j\<close> requests raise a transport exception and
  the next one, still within \<open>retry_attempts\<close>, returns a body, the result is that body
  normalised (the sleep lengths being ones that \<open>time.sleep\<close> accepts); and whatever data
  it returns is the normalisation of a body that a request returned. The normalisation: a list is returned
  as it is; a dict with a \<open>data\<close> key gives that value (in a one-element list if it is not
  a list), else a dict with a \<open>results\<close> key gives that value under the same rule, else the
  dict itself in a one-element list; any other body gives one dict whose key \<open>raw_data\<close>
  holds the string form of the body.
\<close>

theorem normalize_response_cases:
  "(fetch_api_data self endpoint_config w = (res, w'') \<and>
    http_calls w \<le> k \<and> k < http_calls w'' \<and> http_reply w k = Body decoded \<longrightarrow>
      res = Inr (Some (normalize_response decoded)))
   \<and> (j < nat (max_retries_of self) \<and>
    (\<forall>i<j. \<exists>msg. http_reply w (http_calls w + i) = Raises (RequestException msg)) \<and>
    http_reply w (http_calls w + j) = Body body \<and>
    0 < requests_per_second_of (rate_limit_of self) \<and>
    1 / requests_per_second_of (rate_limit_of self) \<le> max_sleep w \<and>
    (0 < j \<longrightarrow> 0 \<le> retry_delay_of self \<and> retry_delay_of self \<le> max_sleep w) \<longrightarrow>
      fst (fetch_api_data self endpoint_config w) = Inr (Some (normalize_response body)))
   \<and> (fetch_api_data self endpoint_config w = (Inr (Some ds), w') \<longrightarrow>
        (\<exists>k body. http_reply w k = Body body \<and> ds = normalize_response body))
   \<and> normalize_response (JList xs) = xs
   \<and> (map_of items ''data'' = Some v \<longrightarrow>
        normalize_response (JDict items) = (case v of JList ys \<Rightarrow> ys | _ \<Rightarrow> [v]))
   \<and> (map_of items ''data'' = None \<and> map_of items ''results'' = Some v \<longrightarrow>
        normalize_response (JDict items) = (case v of JList ys \<Rightarrow> ys | _ \<Rightarrow> [v]))
   \<and> (map_of items ''data'' = None \<and> map_of items ''results'' = None \<longrightarrow>
        normalize_response (JDict items) = [JDict items])
   \<and> normalize_response JNull = [JDict [(''raw_data'', JStr ''None'')]]
   \<and> normalize_response (JBool b) = [JDict [(''raw_data'', JStr (if b then ''True'' else ''False''))]]
   \<and> normalize_response (JInt i) = [JDict [(''raw_data'', JStr (str_int i))]]
   \<and> normalize_response (JFloat r) = [JDict [(''raw_data'', JStr r)]]
   \<and> normalize_response (JStr s) = [JDict [(''raw_data'', JStr s)]]"
  using fetch_api_data_result [of self endpoint_config w ds w']
    fetch_api_data_success [of j self w body endpoint_config]
    fetch_api_data_decoded [of self endpoint_config w res w'' k decoded]
  by (simp add: as_list_def raw_data_def)

theorem normalize_response_cases_witness:
  "fst (fetch_api_data demo_api demo_endpoint
          (demo_world (\<lambda>_. Body (JDict [(''data'', JList [JDict [(''a'', JInt 1)]])])) (\<lambda>_. Db_rows []))) =
     Inr (Some [JDict [(''a'', JInt 1)]])
   \<and> fst (fetch_api_data demo_api demo_endpoint
          (demo_world (\<lambda>_. Body (JDict [(''other'', JInt 5)])) (\<lambda>_. Db_rows []))) =
     Inr (Some [JDict [(''other'', JInt 5)]])
   \<and> fst (fetch_api_data demo_api demo_endpoint
          (demo_world (\<lambda>_. Body (JDict [(''results'', JInt 7)])) (\<lambda>_. Db_rows []))) =
     Inr (Some [JInt 7])
   \<and> fst (fetch_api_data demo_api demo_endpoint
          (demo_world (\<lambda>_. Body (JList [JInt 1, JInt 2])) (\<lambda>_. Db_rows []))) =
     Inr (Some [JInt 1, JInt 2])
   \<and> fst (fetch_api_data demo_api demo_endpoint
          (demo_world (\<lambda>k. if k = 0 then Raises (RequestException ''timed out'') else Body (JInt (- 42)))
             (\<lambda>_. Db_rows []))) =
     Inr (Some [JDict [(''raw_data'', JStr ''-42'')]])
   \<and> fst (fetch_api_data demo_api demo_endpoint
          (demo_world (\<lambda>_. Body (JBool True)) (\<lambda>_. Db_rows []))) =
     Inr (Some [JDict [(''raw_data'', JStr ''True'')]])"
proof -
  have s: "0 < requests_per_second_of (rate_limit_of demo_api)" "(0::nat) < nat (max_retries_of demo_api)"
    "(1::nat) < nat (max_retries_of demo_api)" "0 \<le> retry_delay_of demo_api"
    by (simp_all add: requests_per_second_of_def rate_limit_of_def max_retries_of_def
          retry_delay_of_def demo_api_def)
  have m: "\<And>http db. 1 / requests_per_second_of (rate_limit_of demo_api) \<le> max_sleep (demo_world http db)"
    "\<And>http db. retry_delay_of demo_api \<le> max_sleep (demo_world http db)"
    "\<And>http db. http_reply (demo_world http db) = http"
    "\<And>http db. http_calls (demo_world http db) = 0"
    by (simp_all add: requests_per_second_of_def rate_limit_of_def retry_delay_of_def demo_api_def
          demo_world_def)
  have first: "\<And>body db. fst (fetch_api_data demo_api demo_endpoint (demo_world (\<lambda>_. Body body) db)) =
      Inr (Some (normalize_response body))"
    using normalize_response_cases [where j = 0 and self = demo_api and endpoint_config = demo_endpoint]
      s m by simp
  have second: "fst (fetch_api_data demo_api demo_endpoint
      (demo_world (\<lambda>k. if k = 0 then Raises (RequestException ''timed out'') else Body (JInt (- 42)))
         (\<lambda>_. Db_rows []))) = Inr (Some (normalize_response (JInt (- 42))))"
    using normalize_response_cases [where j = 1 and self = demo_api and endpoint_config = demo_endpoint
        and body = "JInt (- 42)"
        and w = "demo_world (\<lambda>k. if k = 0 then Raises (RequestException ''timed out'') else Body (JInt (- 42)))
                   (\<lambda>_. Db_rows [])"]
      s m by simp
  have n: "normalize_response (JInt (- 42)) = [JDict [(''raw_data'', JStr ''-42'')]]"
    using normalize_response_cases [where i = "- 42"]
    by (simp add: str_int_def str_nat.simps digit_char_def)
  have n2: "normalize_response (JDict [(''data'', JList [JDict [(''a'', JInt 1)]])]) = [JDict [(''a'', JInt 1)]]"
    "normalize_response (JDict [(''other'', JInt 5)]) = [JDict [(''other'', JInt 5)]]"
    "normalize_response (JDict [(''results'', JInt 7)]) = [JInt 7]"
    "normalize_response (JBool True) = [JDict [(''raw_data'', JStr ''True'')]]"
    using normalize_response_cases [where items = "[(''data'', JList [JDict [(''a'', JInt 1)]])]"
        and v = "JList [JDict [(''a'', JInt 1)]]"]
      normalize_response_cases [where items = "[(''other'', JInt 5)]"]
      normalize_response_cases [where items = "[(''results'', JInt 7)]" and v = "JInt 7"]
      normalize_response_cases [where b = True]
    by simp_all
  let ?wl = "demo_world (\<lambda>_. Body (JList [JInt 1, JInt 2])) (\<lambda>_. Db_rows [])"
  have calls: "http_calls ?wl \<le> 0" "(0::nat) < http_calls (snd (fetch_api_data demo_api demo_endpoint ?wl))"
    "http_reply ?wl 0 = Body (JList [JInt 1, JInt 2])"
    by (simp_all add: fetch_api_data_def get_auth_headers_def demo_defs Let_def env_or_def
          format_str_def max_retries_of_def rate_limit_of_def requests_per_second_of_def upt_rec
          py_sleep_def http_request_def emit_def split: prod.splits)
  have pair: "fetch_api_data demo_api demo_endpoint ?wl =
      (fst (fetch_api_data demo_api demo_endpoint ?wl), snd (fetch_api_data demo_api demo_endpoint ?wl))"
    by simp
  from normalize_response_cases [where self = demo_api and endpoint_config = demo_endpoint
      and w = ?wl and res = "fst (fetch_api_data demo_api demo_endpoint ?wl)"
      and w'' = "snd (fetch_api_data demo_api demo_endpoint ?wl)" and k = 0
      and decoded = "JList [JInt 1, JInt 2]", THEN conjunct1, rule_format,
      OF conjI [OF pair conjI [OF calls(1) conjI [OF calls(2) calls(3)]]]]
  have third: "fst (fetch_api_data demo_api demo_endpoint ?wl) =
      Inr (Some (normalize_response (JList [JInt 1, JInt 2])))"
    .
  from first second third n n2 show ?thesis
    by simp
qed

section \<open>The connector\<close>

text \<open>
  Claim C4, as amended. \<open>execute_file\<close> splits the content of the file on semicolons and
  executes each piece that is not empty once stripped, in order; when all of them succeed
  it commits once, after the last one; at the first statement that fails it raises, having
  executed nothing after it, and does not commit. A piece that holds only a comment is not
  empty and is executed: the file \<open>INSERT ...; -- comment; SELECT 1;\<close> gives three
  statements. The cursor is closed on both paths.
\<close>

theorem execute_file_runs_statements:
  assumes conn: "connect c w = (Inr h, w1)"
      and src: "text_file w file_path = Inr sql"
  shows "((\<forall>i \<le> length (statements_of sql). \<exists>rs. db_reply w (db_calls w1 + i) = Db_rows rs) \<longrightarrow>
            fst (execute_file c file_path w) = Inr () \<and>
            trace (snd (execute_file c file_path w)) =
              trace w1 @ [Cursor_open h] @ map (\<lambda>s. Execute h (Sql s)) (statements_of sql) @
              [Commit h, Cursor_close h])
       \<and> (\<forall>j m. j < length (statements_of sql) \<and>
            (\<forall>i < j. \<exists>rs. db_reply w (db_calls w1 + i) = Db_rows rs) \<and>
            db_reply w (db_calls w1 + j) = Db_raise m \<longrightarrow>
            fst (execute_file c file_path w) = Inl (Exception m) \<and>
            trace (snd (execute_file c file_path w)) =
              trace w1 @ [Cursor_open h] @
              map (\<lambda>s. Execute h (Sql s)) (take (Suc j) (statements_of sql)) @ [Cursor_close h])"
proof -
  from connect_keeps [OF conn] have k: "db_reply w1 = db_reply w" "text_file w1 = text_file w"
    by simp_all
  let ?w2 = "emit (Cursor_open h) w1"
  have k2: "db_reply ?w2 = db_reply w" "db_calls ?w2 = db_calls w1" "trace ?w2 = trace w1 @ [Cursor_open h]"
    "text_file ?w2 = text_file w"
    using k by (simp_all add: emit_def)
  show ?thesis
  proof (intro conjI allI impI)
    assume ok: "\<forall>i \<le> length (statements_of sql). \<exists>rs. db_reply w (db_calls w1 + i) = Db_rows rs"
    then have "\<forall>i < length (filter (\<lambda>s. s \<noteq> []) (map strip (split_on CHR '';'' sql))).
       \<exists>rs. db_reply ?w2 (db_calls ?w2 + i) = Db_rows rs"
      using k2 by (simp add: statements_of_def)
    note run = execute_statements_ok [OF this, of h]
    from ok obtain rs where "db_reply w (db_calls w1 + length (statements_of sql)) = Db_rows rs"
      by blast
    with run conn src k2 show "fst (execute_file c file_path w) = Inr ()"
      by (simp add: execute_file_def seq_def try_finally_def return_def db_call_def Let_def
            statements_of_def emit_def)
    from run conn src k2 \<open>db_reply w (db_calls w1 + length (statements_of sql)) = Db_rows rs\<close>
    show "trace (snd (execute_file c file_path w)) =
              trace w1 @ [Cursor_open h] @ map (\<lambda>s. Execute h (Sql s)) (statements_of sql) @
              [Commit h, Cursor_close h]"
      by (simp add: execute_file_def seq_def try_finally_def return_def db_call_def Let_def
            statements_of_def emit_def)
  next
    fix j m
    assume a: "j < length (statements_of sql) \<and>
            (\<forall>i < j. \<exists>rs. db_reply w (db_calls w1 + i) = Db_rows rs) \<and>
            db_reply w (db_calls w1 + j) = Db_raise m"
    then have "j < length (filter (\<lambda>s. s \<noteq> []) (map strip (split_on CHR '';'' sql)))"
      "\<forall>i < j. \<exists>rs. db_reply ?w2 (db_calls ?w2 + i) = Db_rows rs"
      "db_reply ?w2 (db_calls ?w2 + j) = Db_raise m"
      using k2 by (simp_all add: statements_of_def)
    note run = execute_statements_fail [OF this, of h]
    from run conn src k2 show "fst (execute_file c file_path w) = Inl (Exception m)"
      by (simp add: execute_file_def seq_def try_finally_def return_def Let_def
            statements_of_def emit_def)
    from run conn src k2 show "trace (snd (execute_file c file_path w)) =
              trace w1 @ [Cursor_open h] @
              map (\<lambda>s. Execute h (Sql s)) (take (Suc j) (statements_of sql)) @ [Cursor_close h]"
      by (simp add: execute_file_def seq_def try_finally_def return_def Let_def
            statements_of_def emit_def)
  qed
qed


theorem execute_file_runs_statements_witness:
  "connect demo_connector (demo_world (\<lambda>_. Body JNull) (\<lambda>k. if k = 2 then Db_raise ''syntax error'' else Db_rows [])) =
     (Inr 0, snd (connect demo_connector (demo_world (\<lambda>_. Body JNull) (\<lambda>k. if k = 2 then Db_raise ''syntax error'' else Db_rows []))))
   \<and> fst (execute_file demo_connector ''setup.sql''
        (demo_world (\<lambda>_. Body JNull) (\<lambda>k. if k = 2 then Db_raise ''syntax error'' else Db_rows []))) =
       Inl (Exception ''syntax error'')
   \<and> trace (snd (execute_file demo_connector ''setup.sql''
        (demo_world (\<lambda>_. Body JNull) (\<lambda>k. if k = 2 then Db_raise ''syntax error'' else Db_rows [])))) =
       [Connect [''acct'', ''etl'', ''secret'', ''WH'', ''DB'', ''RAW'', ''LOADER''], Cursor_open 0,
        Execute 0 (Sql ''INSERT ...''), Execute 0 (Sql ''-- comment''), Cursor_close 0]"
proof -
  let ?w = "demo_world (\<lambda>_. Body JNull) (\<lambda>k. if k = 2 then Db_raise ''syntax error'' else Db_rows [])"
  have c: "connect demo_connector ?w = (Inr 0, snd (connect demo_connector ?w))"
    by (simp add: run_defs demo_defs)
  have f: "text_file ?w ''setup.sql'' = Inr ''INSERT ...; -- comment\<newline>; SELECT 1;''"
    by (simp add: demo_world_def)
  have st: "statements_of ''INSERT ...; -- comment\<newline>; SELECT 1;'' =
      [''INSERT ...'', ''-- comment'', ''SELECT 1'']"
    by (simp add: statements_of_def strip_def py_isspace_def)
  have n: "db_calls (snd (connect demo_connector ?w)) = 1"
    "trace (snd (connect demo_connector ?w)) =
       [Connect [''acct'', ''etl'', ''secret'', ''WH'', ''DB'', ''RAW'', ''LOADER'']]"
    by (simp_all add: run_defs demo_defs)
  have r: "db_reply ?w = (\<lambda>k. if k = 2 then Db_raise ''syntax error'' else Db_rows [])"
    by (simp add: demo_world_def)
  note t = execute_file_runs_statements [OF c f, THEN conjunct2, rule_format, of 1 "''syntax error''"]
  have "fst (execute_file demo_connector ''setup.sql'' ?w) = Inl (Exception ''syntax error'') \<and>
      trace (snd (execute_file demo_connector ''setup.sql'' ?w)) =
        trace (snd (connect demo_connector ?w)) @ [Cursor_open 0] @
        map (\<lambda>s. Execute 0 (Sql s)) (take (Suc 1) (statements_of ''INSERT ...; -- comment\<newline>; SELECT 1;'')) @
        [Cursor_close 0]"
    by (rule t) (simp add: st n r)
  then have "fst (execute_file demo_connector ''setup.sql'' ?w) = Inl (Exception ''syntax error'')"
    and "trace (snd (execute_file demo_connector ''setup.sql'' ?w)) =
       [Connect [''acct'', ''etl'', ''secret'', ''WH'', ''DB'', ''RAW'', ''LOADER''], Cursor_open 0,
        Execute 0 (Sql ''INSERT ...''), Execute 0 (Sql ''-- comment''), Cursor_close 0]"
    by (simp_all add: st n)
  with c show ?thesis
    by blast
qed

theorem execute_file_comment_counterexample:
  "fst (execute_file demo_connector ''setup.sql'' (demo_world (\<lambda>_. Body JNull) (\<lambda>_. Db_rows []))) = Inr ()
   \<and> trace (snd (execute_file demo_connector ''setup.sql'' (demo_world (\<lambda>_. Body JNull) (\<lambda>_. Db_rows [])))) =
     [Connect [''acct'', ''etl'', ''secret'', ''WH'', ''DB'', ''RAW'', ''LOADER''], Cursor_open 0,
      Execute 0 (Sql ''INSERT ...''), Execute 0 (Sql ''-- comment''), Execute 0 (Sql ''SELECT 1''),
      Commit 0, Cursor_close 0]"
  by (simp add: execute_file_def run_defs demo_defs strip_def py_isspace_def)

text \<open>
  Claim C8, as amended. \<open>close\<close> is idempotent: on a connector whose connection is absent
  or already closed it does nothing, and a second call after a call that returned changes
  nothing. After a call that returned, the connection attribute is \<open>None\<close> when it was
  \<open>None\<close> or an open connection before; a connection that was already closed stays in
  the attribute, as the counterexample shows.
\<close>

theorem close_idempotent:
  "(connection w (cid c) = None \<or> (\<exists>h. connection w (cid c) = Some h \<and> \<not> is_open w h)
      \<longrightarrow> close c w = (Inr (), w))
   \<and> (close c w = (Inr (), w1) \<longrightarrow> close c w1 = (Inr (), w1))
   \<and> (close c w = (Inr (), w1) \<and> (connection w (cid c) = None \<or>
         (\<exists>h. connection w (cid c) = Some h \<and> is_open w h)) \<longrightarrow> connection w1 (cid c) = None)"
  by (auto simp: close_def db_call_def emit_def Let_def
        split: option.splits db_outcome.splits if_splits)

theorem close_idempotent_witness:
  "connection (snd (connect demo_connector (demo_world (\<lambda>_. Body JNull) (\<lambda>_. Db_rows [])))) (cid demo_connector) = Some 0
   \<and> is_open (snd (connect demo_connector (demo_world (\<lambda>_. Body JNull) (\<lambda>_. Db_rows [])))) 0
   \<and> fst (close demo_connector (snd (connect demo_connector (demo_world (\<lambda>_. Body JNull) (\<lambda>_. Db_rows []))))) = Inr ()
   \<and> close demo_connector (snd (close demo_connector (snd (connect demo_connector (demo_world (\<lambda>_. Body JNull) (\<lambda>_. Db_rows [])))))) =
       (Inr (), snd (close demo_connector (snd (connect demo_connector (demo_world (\<lambda>_. Body JNull) (\<lambda>_. Db_rows []))))))
   \<and> connection (snd (close demo_connector (snd (connect demo_connector (demo_world (\<lambda>_. Body JNull) (\<lambda>_. Db_rows [])))))) (cid demo_connector) = None
   \<and> close demo_connector stale_world = (Inr (), stale_world)"
proof -
  let ?w = "snd (connect demo_connector (demo_world (\<lambda>_. Body JNull) (\<lambda>_. Db_rows [])))"
  let ?w1 = "snd (close demo_connector ?w)"
  have a: "connection ?w (cid demo_connector) = Some 0" "is_open ?w 0"
    by (simp_all add: run_defs demo_defs)
  have b: "fst (close demo_connector ?w) = Inr ()"
    using a by (simp add: close_def db_call_def emit_def run_defs demo_defs)
  then have b': "close demo_connector ?w = (Inr (), ?w1)"
    by (metis prod.collapse)
  have s: "connection stale_world (cid demo_connector) = Some 0 \<and> \<not> is_open stale_world 0"
    by (simp add: stale_world_def demo_defs)
  note t = close_idempotent [of ?w demo_connector ?w1]
  from t b' have c2: "close demo_connector ?w1 = (Inr (), ?w1)"
    by blast
  from t b' a have c3: "connection ?w1 (cid demo_connector) = None"
    by blast
  from close_idempotent [of stale_world demo_connector stale_world] s
  have c4: "close demo_connector stale_world = (Inr (), stale_world)"
    by blast
  from a b c2 c3 c4 show ?thesis
    by blast
qed

theorem close_stale_counterexample:
  "fst (close demo_connector stale_world) = Inr ()
   \<and> connection (snd (close demo_connector stale_world)) (cid demo_connector) = Some 0"
  by (simp add: close_def stale_world_def demo_defs)

section \<open>Authentication headers\<close>

text \<open>
  Claim C9, as amended. \<open>_get_auth_headers\<close> returns a new dict that holds the static
  headers of the endpoint and, for \<open>bearer\<close> and \<open>api_key\<close>, the authentication header
  stored over them; every dict that existed before, the static headers among them, is
  unchanged. With \<open>bearer\<close>, when the environment variable is unset or empty and the
  configuration has no \<open>bearer_token\<close> key or has the empty string there, \<open>Authorization\<close>
  is \<open>Bearer\<close> followed by a space and an empty token; with \<open>api_key\<close> and no key in the
  same sense, \<open>X-API-Key\<close> is the empty string. When the key is present in the
  configuration with a null value, \<open>Authorization\<close> is \<open>Bearer None\<close> and \<open>X-API-Key\<close> is
  \<open>None\<close>.
\<close>

theorem get_auth_headers_empty_token:
  assumes "get_auth_headers endpoint_config w = (hs, w')"
      and "static = (case headers endpoint_config of None \<Rightarrow> [] | Some a \<Rightarrow> header_dicts w a)"
      and "unset = (\<lambda>k. environ w k = None \<or> environ w k = Some [])"
  shows "(auth_type endpoint_config = Some ''bearer'' \<and> unset ''API_BEARER_TOKEN'' \<and>
          (bearer_token endpoint_config = None \<or> bearer_token endpoint_config = Some (PyStr [])) \<longrightarrow>
            header_dicts w' hs = AList.update ''Authorization'' (PyStr ''Bearer '') static \<and>
            map_of (header_dicts w' hs) ''Authorization'' = Some (PyStr ''Bearer ''))
       \<and> (auth_type endpoint_config = Some ''api_key'' \<and> unset ''API_KEY'' \<and>
          (api_key endpoint_config = None \<or> api_key endpoint_config = Some (PyStr [])) \<longrightarrow>
            header_dicts w' hs = AList.update ''X-API-Key'' (PyStr []) static \<and>
            map_of (header_dicts w' hs) ''X-API-Key'' = Some (PyStr []))
       \<and> (auth_type endpoint_config = Some ''bearer'' \<and> unset ''API_BEARER_TOKEN'' \<and>
          bearer_token endpoint_config = Some PyNone \<longrightarrow>
            header_dicts w' hs = AList.update ''Authorization'' (PyStr ''Bearer None'') static)
       \<and> (auth_type endpoint_config = Some ''api_key'' \<and> unset ''API_KEY'' \<and>
          api_key endpoint_config = Some PyNone \<longrightarrow>
            header_dicts w' hs = AList.update ''X-API-Key'' PyNone static)
       \<and> hs = next_dict w
       \<and> (\<forall>a. a \<noteq> next_dict w \<longrightarrow> header_dicts w' a = header_dicts w a)
       \<and> (\<forall>a. headers endpoint_config = Some a \<and> a < next_dict w \<longrightarrow>
            header_dicts w' a = header_dicts w a)"
  using assms
  by (auto simp: get_auth_headers_def Let_def env_or_def format_str_def map_of_update
        split: if_splits)

theorem get_auth_headers_empty_token_witness:
  "header_dicts
       (snd (get_auth_headers demo_endpoint (demo_world (\<lambda>_. Body JNull) (\<lambda>_. Db_rows []))))
       (fst (get_auth_headers demo_endpoint (demo_world (\<lambda>_. Body JNull) (\<lambda>_. Db_rows [])))) =
     [(''Accept'', PyStr ''application/json''), (''Authorization'', PyStr ''Bearer '')]
   \<and> header_dicts
       (snd (get_auth_headers (demo_endpoint\<lparr>auth_type := Some ''api_key''\<rparr>)
          (demo_world (\<lambda>_. Body JNull) (\<lambda>_. Db_rows []))))
       (fst (get_auth_headers (demo_endpoint\<lparr>auth_type := Some ''api_key''\<rparr>)
          (demo_world (\<lambda>_. Body JNull) (\<lambda>_. Db_rows [])))) =
     [(''Accept'', PyStr ''application/json''), (''X-API-Key'', PyStr [])]
   \<and> header_dicts
       (snd (get_auth_headers demo_endpoint (demo_world (\<lambda>_. Body JNull) (\<lambda>_. Db_rows [])))) 0 =
     [(''Accept'', PyStr ''application/json'')]"
proof -
  let ?w = "demo_world (\<lambda>_. Body JNull) (\<lambda>_. Db_rows [])"
  let ?k = "demo_endpoint\<lparr>auth_type := Some ''api_key''\<rparr>"
  have p1: "get_auth_headers demo_endpoint ?w =
      (fst (get_auth_headers demo_endpoint ?w), snd (get_auth_headers demo_endpoint ?w))"
    by simp
  have p2: "get_auth_headers ?k ?w = (fst (get_auth_headers ?k ?w), snd (get_auth_headers ?k ?w))"
    by simp
  have f: "auth_type demo_endpoint = Some ''bearer''" "bearer_token demo_endpoint = None"
    "auth_type ?k = Some ''api_key''" "api_key ?k = None"
    "environ ?w ''API_BEARER_TOKEN'' = None" "environ ?w ''API_KEY'' = None"
    "headers demo_endpoint = Some 0" "headers ?k = Some 0" "next_dict ?w = 1"
    "header_dicts ?w 0 = [(''Accept'', PyStr ''application/json'')]"
    by (simp_all add: demo_defs)
  have st: "[(''Accept'', PyStr ''application/json'')] =
      (case headers demo_endpoint of None \<Rightarrow> [] | Some a \<Rightarrow> header_dicts ?w a)"
    "[(''Accept'', PyStr ''application/json'')] =
      (case headers ?k of None \<Rightarrow> [] | Some a \<Rightarrow> header_dicts ?w a)"
    by (simp_all add: demo_defs)
  have u: "AList.update ''Authorization'' (PyStr ''Bearer '') [(''Accept'', PyStr ''application/json'')] =
      [(''Accept'', PyStr ''application/json''), (''Authorization'', PyStr ''Bearer '')]"
    "AList.update ''X-API-Key'' (PyStr []) [(''Accept'', PyStr ''application/json'')] =
      [(''Accept'', PyStr ''application/json''), (''X-API-Key'', PyStr [])]"
    by simp_all
  from get_auth_headers_empty_token [OF p1 st(1) refl] f
  have "header_dicts (snd (get_auth_headers demo_endpoint ?w))
       (fst (get_auth_headers demo_endpoint ?w)) =
      AList.update ''Authorization'' (PyStr ''Bearer '') [(''Accept'', PyStr ''application/json'')]"
    by blast
  then have a1: "header_dicts (snd (get_auth_headers demo_endpoint ?w))
       (fst (get_auth_headers demo_endpoint ?w)) =
      [(''Accept'', PyStr ''application/json''), (''Authorization'', PyStr ''Bearer '')]"
    by (simp only: u)
  from get_auth_headers_empty_token [OF p2 st(2) refl] f
  have "header_dicts (snd (get_auth_headers ?k ?w)) (fst (get_auth_headers ?k ?w)) =
      AList.update ''X-API-Key'' (PyStr []) [(''Accept'', PyStr ''application/json'')]"
    by blast
  then have a2: "header_dicts (snd (get_auth_headers ?k ?w)) (fst (get_auth_headers ?k ?w)) =
      [(''Accept'', PyStr ''application/json''), (''X-API-Key'', PyStr [])]"
    by (simp only: u)
  have "(0::nat) < next_dict ?w"
    by (simp add: f)
  with get_auth_headers_empty_token [OF p1 st(1) refl] f
  have "header_dicts (snd (get_auth_headers demo_endpoint ?w)) 0 = header_dicts ?w 0"
    by blast
  with f have a3: "header_dicts (snd (get_auth_headers demo_endpoint ?w)) 0 =
      [(''Accept'', PyStr ''application/json'')]"
    by (simp only:)
  from a1 a2 a3 show ?thesis
    by blast
qed

theorem get_auth_headers_null_token_counterexample:
  "environ (demo_world (\<lambda>_. Body JNull) (\<lambda>_. Db_rows [])) ''API_BEARER_TOKEN'' = None
   \<and> bearer_token (demo_endpoint\<lparr>bearer_token := Some PyNone\<rparr>) = Some PyNone
   \<and> header_dicts
       (snd (get_auth_headers (demo_endpoint\<lparr>bearer_token := Some PyNone\<rparr>)
          (demo_world (\<lambda>_. Body JNull) (\<lambda>_. Db_rows []))))
       (fst (get_auth_headers (demo_endpoint\<lparr>bearer_token := Some PyNone\<rparr>)
          (demo_world (\<lambda>_. Body JNull) (\<lambda>_. Db_rows [])))) =
     [(''Accept'', PyStr ''application/json''), (''Authorization'', PyStr ''Bearer None'')]"
  by (simp add: get_auth_headers_def demo_defs Let_def env_or_def format_str_def)

section \<open>The pipe status\<close>

text \<open>
  Claim C10. \<open>check_pipe_status\<close> never raises, and it returns \<open>None\<close> both when the
  status query gives no row and when anything in the body of its \<open>try\<close> raises (the
  connection or the query): the two results are the same value, so the caller cannot
  tell a failed query from an absent status row.
\<close>

theorem check_pipe_status_none:
  "(\<exists>v w'. check_pipe_status self pipe_name w = (Inr v, w'))
   \<and> (connect (file_snowflake self) w = (Inr h, w1) \<and> db_reply w (db_calls w1) = Db_rows []
        \<longrightarrow> fst (check_pipe_status self pipe_name w) = Inr CNull)
   \<and> (fst (pipe_status_body self pipe_name w) = Inl e
        \<longrightarrow> fst (check_pipe_status self pipe_name w) = Inr CNull)
   \<and> (connect (file_snowflake self) w = (Inr h, w1) \<and> db_reply w (db_calls w1) = Db_raise m
        \<longrightarrow> fst (check_pipe_status self pipe_name w) = Inr CNull)
   \<and> (fst (connect (file_snowflake self) w) = Inl e
        \<longrightarrow> fst (check_pipe_status self pipe_name w) = Inr CNull)"
proof (intro conjI impI)
  show "\<exists>v w'. check_pipe_status self pipe_name w = (Inr v, w')"
    by (auto simp: check_pipe_status_def try_except_def return_def split: prod.splits sum.splits)
next
  assume a: "connect (file_snowflake self) w = (Inr h, w1) \<and> db_reply w (db_calls w1) = Db_rows []"
  with connect_keeps [of "file_snowflake self" w "Inr h" w1] have "db_reply w1 (db_calls w1) = Db_rows []"
    by simp
  with a show "fst (check_pipe_status self pipe_name w) = Inr CNull"
    by (simp add: check_pipe_status_def pipe_status_body_def try_except_def seq_def return_def
          db_call_def emit_def Let_def fetchone_def first_cell_def)
next
  assume "fst (pipe_status_body self pipe_name w) = Inl e"
  then show "fst (check_pipe_status self pipe_name w) = Inr CNull"
    by (cases "pipe_status_body self pipe_name w")
       (simp add: check_pipe_status_def try_except_def return_def)
next
  assume a: "connect (file_snowflake self) w = (Inr h, w1) \<and> db_reply w (db_calls w1) = Db_raise m"
  with connect_keeps [of "file_snowflake self" w "Inr h" w1] have "db_reply w1 (db_calls w1) = Db_raise m"
    by simp
  with a show "fst (check_pipe_status self pipe_name w) = Inr CNull"
    by (simp add: check_pipe_status_def pipe_status_body_def try_except_def seq_def return_def
          db_call_def emit_def Let_def)
next
  assume "fst (connect (file_snowflake self) w) = Inl e"
  then show "fst (check_pipe_status self pipe_name w) = Inr CNull"
    by (cases "connect (file_snowflake self) w")
       (simp add: check_pipe_status_def pipe_status_body_def try_except_def seq_def return_def)
qed

theorem check_pipe_status_none_witness:
  "fst (check_pipe_status demo_file_ingestion ''FILE_INGESTION_PIPE''
          (demo_world (\<lambda>_. Body JNull) (\<lambda>_. Db_rows []))) = Inr CNull
   \<and> fst (pipe_status_body demo_file_ingestion ''FILE_INGESTION_PIPE''
          (demo_world (\<lambda>_. Body JNull) (\<lambda>k. if k = 1 then Db_raise ''pipe does not exist'' else Db_rows []))) =
       Inl (Exception ''pipe does not exist'')
   \<and> fst (check_pipe_status demo_file_ingestion ''FILE_INGESTION_PIPE''
          (demo_world (\<lambda>_. Body JNull) (\<lambda>k. if k = 1 then Db_raise ''pipe does not exist'' else Db_rows []))) = Inr CNull"
proof -
  let ?ok = "demo_world (\<lambda>_. Body JNull) (\<lambda>_. Db_rows [])"
  let ?bad = "demo_world (\<lambda>_. Body JNull) (\<lambda>k. if k = 1 then Db_raise ''pipe does not exist'' else Db_rows [])"
  have c: "fst (connect (file_snowflake demo_file_ingestion) ?ok) = Inr 0"
    by (simp add: run_defs demo_defs)
  then have c': "connect (file_snowflake demo_file_ingestion) ?ok =
      (Inr 0, snd (connect (file_snowflake demo_file_ingestion) ?ok))"
    by (metis prod.collapse)
  have r: "db_reply ?ok (db_calls (snd (connect (file_snowflake demo_file_ingestion) ?ok))) = Db_rows []"
    by (simp add: demo_world_def)
  have b: "fst (pipe_status_body demo_file_ingestion ''FILE_INGESTION_PIPE'' ?bad) =
      Inl (Exception ''pipe does not exist'')"
    by (simp add: pipe_status_body_def run_defs demo_defs)
  note t1 = check_pipe_status_none [of demo_file_ingestion "''FILE_INGESTION_PIPE''" ?ok 0
      "snd (connect (file_snowflake demo_file_ingestion) ?ok)"]
  note t2 = check_pipe_status_none [of demo_file_ingestion "''FILE_INGESTION_PIPE''" ?bad _ _
      "Exception ''pipe does not exist''"]
  from t1 c' r have a1: "fst (check_pipe_status demo_file_ingestion ''FILE_INGESTION_PIPE'' ?ok) = Inr CNull"
    by blast
  from t2 b have a2: "fst (check_pipe_status demo_file_ingestion ''FILE_INGESTION_PIPE'' ?bad) = Inr CNull"
    by blast
  from a1 b a2 show ?thesis
    by blast
qed


section \<open>Looking up an endpoint\<close>





section \<open>The orchestrator\<close>

text \<open>
  Claim C2. The orchestrator runs no stage after a failed one. When \<open>run_ingestion\<close>
  returns false, \<open>run_full_pipeline\<close> returns the mapping with \<open>ingestion\<close>,
  \<open>transformation\<close> and \<open>validation\<close> all false, in the world that the ingestion
  stage left, and nothing it added to the trace belongs to the transformation or the
  validation stage. When the ingestion succeeds and \<open>run_transformation\<close> returns false,
  the mapping has \<open>ingestion\<close> true and the other two false, and no statement of the
  validation stage was executed. An exception that leaves a stage leaves the pipeline, with
  nothing run after it.
\<close>

theorem run_full_pipeline_stops:
  "(run_ingestion self w = (Inr False, w1) \<longrightarrow>
      run_full_pipeline self w =
        (Inr [(''ingestion'', False), (''transformation'', False), (''validation'', False)], w1) \<and>
      (\<exists>new. trace w1 = trace w @ new \<and>
         list_all (\<lambda>e. event_stage e \<noteq> Some ''TRANSFORMATION'' \<and>
                        event_stage e \<noteq> Some ''VALIDATION'') new))
   \<and> (run_ingestion self w = (Inr True, w1) \<and> run_transformation self w1 = (Inr False, w2) \<longrightarrow>
      run_full_pipeline self w =
        (Inr [(''ingestion'', True), (''transformation'', False), (''validation'', False)], w2) \<and>
      (\<exists>new. trace w2 = trace w @ new \<and>
         list_all (\<lambda>e. event_stage e \<noteq> Some ''VALIDATION'') new))
   \<and> (run_ingestion self w = (Inl e, w1) \<longrightarrow> run_full_pipeline self w = (Inl e, w1))
   \<and> (run_ingestion self w = (Inr True, w1) \<and> run_transformation self w1 = (Inl e, w2) \<longrightarrow>
      run_full_pipeline self w = (Inl e, w2))"
proof (intro conjI impI)
  assume a: "run_ingestion self w = (Inr False, w1)"
  then show "run_full_pipeline self w =
        (Inr [(''ingestion'', False), (''transformation'', False), (''validation'', False)], w1)"
    by (simp add: run_full_pipeline_def seq_def return_def)
  from emitsD [OF emits_run_ingestion a]
  obtain new where n: "trace w1 = trace w @ new" "list_all (stage_event ''INGESTION'' (run_id self)) new"
    by blast
  from n(2) have "list_all (\<lambda>e. event_stage e \<noteq> Some ''TRANSFORMATION'' \<and>
                        event_stage e \<noteq> Some ''VALIDATION'') new"
    by (auto simp: list_all_iff stage_event_def)
  with n(1) show "\<exists>new. trace w1 = trace w @ new \<and>
         list_all (\<lambda>e. event_stage e \<noteq> Some ''TRANSFORMATION'' \<and>
                        event_stage e \<noteq> Some ''VALIDATION'') new"
    by blast
next
  assume a: "run_ingestion self w = (Inr True, w1) \<and> run_transformation self w1 = (Inr False, w2)"
  then show "run_full_pipeline self w =
        (Inr [(''ingestion'', True), (''transformation'', False), (''validation'', False)], w2)"
    by (simp add: run_full_pipeline_def seq_def return_def)
  from a emitsD [OF emits_run_ingestion, of self w "Inr True" w1]
  obtain n1 where n1: "trace w1 = trace w @ n1" "list_all (stage_event ''INGESTION'' (run_id self)) n1"
    by blast
  from a emitsD [OF emits_run_transformation, of self w1 "Inr False" w2]
  obtain n2 where n2: "trace w2 = trace w1 @ n2" "list_all (stage_event ''TRANSFORMATION'' (run_id self)) n2"
    by blast
  from n1(2) n2(2) have "list_all (\<lambda>e. event_stage e \<noteq> Some ''VALIDATION'') (n1 @ n2)"
    by (auto simp: list_all_iff stage_event_def)
  moreover from n1(1) n2(1) have "trace w2 = trace w @ (n1 @ n2)" by simp
  ultimately show "\<exists>new. trace w2 = trace w @ new \<and>
         list_all (\<lambda>e. event_stage e \<noteq> Some ''VALIDATION'') new"
    by blast
next
  assume "run_ingestion self w = (Inl e, w1)"
  then show "run_full_pipeline self w = (Inl e, w1)"
    by (simp add: run_full_pipeline_def seq_def)
next
  assume "run_ingestion self w = (Inr True, w1) \<and> run_transformation self w1 = (Inl e, w2)"
  then show "run_full_pipeline self w = (Inl e, w2)"
    by (simp add: run_full_pipeline_def seq_def)
qed


theorem run_full_pipeline_stops_witness:
  "fst (run_full_pipeline demo_orchestrator
          (demo_world (\<lambda>_. Raises (RequestException ''timed out'')) (\<lambda>_. Db_rows []))) =
     Inr [(''ingestion'', False), (''transformation'', False), (''validation'', False)]
   \<and> fst (run_full_pipeline demo_orchestrator
          (idle_world (\<lambda>k. if k = 7 then Db_raise ''procedure failed'' else Db_rows []))) =
     Inr [(''ingestion'', True), (''transformation'', False), (''validation'', False)]"
proof -
  let ?wa = "demo_world (\<lambda>_. Raises (RequestException ''timed out'')) (\<lambda>_. Db_rows [])"
  let ?wb = "idle_world (\<lambda>k. if k = 7 then Db_raise ''procedure failed'' else Db_rows [])"
  let ?a1 = "snd (run_ingestion demo_orchestrator ?wa)"
  let ?b1 = "snd (run_ingestion demo_orchestrator ?wb)"
  let ?b2 = "snd (run_transformation demo_orchestrator ?b1)"
  have "fst (run_ingestion demo_orchestrator ?wa) = Inr False"
    by (simp add: eval_defs ingest_defs)
  then have ia: "run_ingestion demo_orchestrator ?wa = (Inr False, ?a1)"
    by (metis prod.collapse)
  have "fst (run_ingestion demo_orchestrator ?wb) = Inr True"
    by (simp add: eval_defs ingest_defs)
  then have ib: "run_ingestion demo_orchestrator ?wb = (Inr True, ?b1)"
    by (metis prod.collapse)
  have "fst (run_transformation demo_orchestrator ?b1) = Inr False"
    by (simp add: eval_defs ingest_defs)
  then have tb: "run_transformation demo_orchestrator ?b1 = (Inr False, ?b2)"
    by (metis prod.collapse)
  note t1 = run_full_pipeline_stops [where self = demo_orchestrator and w = ?wa and ?w1.0 = ?a1,
      THEN conjunct1, rule_format, OF ia]
  note t2 = run_full_pipeline_stops [where self = demo_orchestrator and w = ?wb and ?w1.0 = ?b1
      and ?w2.0 = ?b2, THEN conjunct2, THEN conjunct1, rule_format, OF conjI [OF ib tb]]
  from t1 have c1: "fst (run_full_pipeline demo_orchestrator ?wa) =
      Inr [(''ingestion'', False), (''transformation'', False), (''validation'', False)]"
    by simp
  from t2 have c2: "fst (run_full_pipeline demo_orchestrator ?wb) =
      Inr [(''ingestion'', True), (''transformation'', False), (''validation'', False)]"
    by simp
  from c1 c2 show ?thesis
    by blast
qed


text \<open>
  Claim C6. The run identifier is built once, by the constructor, from one reading of the
  clock and one random UUID (its first eight characters). A start-log insert and an
  end-log update that succeed have executed the statement that carries the run identifier
  of the instance; and every start-log insert and end-log update in what a stage, or the
  whole pipeline, adds to the trace carries that same identifier.
\<close>

theorem run_id_shared:
  "(new_orchestrator config_path w = (Inr self, w1) \<longrightarrow>
      run_id self = ''RUN_'' @ strftime_compact (clock w (clock_reads w)) @ ''_'' @
                    take 8 (uuid4 w (uuid_draws w)) \<and>
      clock_reads w1 = Suc (clock_reads w) \<and> uuid_draws w1 = Suc (uuid_draws w))
   \<and> (log_pipeline_start self pipeline_name w = (Inr (), w1) \<longrightarrow>
      (\<exists>h. Execute h (Log_insert pipeline_name (run_id self)) \<in> set (trace w1)))
   \<and> (log_pipeline_end self pipeline_name status rp rf em w = (Inr (), w1) \<longrightarrow>
      (\<exists>h. Execute h (Log_update pipeline_name (run_id self) status rp rf em) \<in> set (trace w1)))
   \<and> (\<forall>m \<in> {run_ingestion self, run_transformation self, run_validation self}.
        \<forall>r w'. m w = (r, w') \<longrightarrow>
          (\<exists>new. trace w' = trace w @ new \<and>
             list_all (\<lambda>e. log_run_id e = None \<or> log_run_id e = Some (run_id self)) new))
   \<and> (\<forall>r w'. run_full_pipeline self w = (r, w') \<longrightarrow>
        (\<exists>new. trace w' = trace w @ new \<and>
           list_all (\<lambda>e. log_run_id e = None \<or> log_run_id e = Some (run_id self)) new))"
proof (intro conjI impI ballI allI)
  assume a: "new_orchestrator config_path w = (Inr self, w1)"
  then show "run_id self = ''RUN_'' @ strftime_compact (clock w (clock_reads w)) @ ''_'' @
                    take 8 (uuid4 w (uuid_draws w))"
    by (auto simp: new_orchestrator_def new_connector_def seq_def return_def now_def
          split: sum.splits)
  from a show "clock_reads w1 = Suc (clock_reads w)"
    by (auto simp: new_orchestrator_def new_connector_def seq_def return_def now_def
          split: sum.splits)
  from a show "uuid_draws w1 = Suc (uuid_draws w)"
    by (auto simp: new_orchestrator_def new_connector_def seq_def return_def now_def
          split: sum.splits)
next
  assume le: "log_pipeline_start self pipeline_name w = (Inr (), w1)"
  obtain r0 w0 where c: "connect (snowflake self) w = (r0, w0)"
    by (cases "connect (snowflake self) w")
  with le obtain h where h: "r0 = Inr h"
    by (cases r0) (auto simp: log_pipeline_start_def seq_def)
  from le c h have "Execute h (Log_insert pipeline_name (run_id self)) \<in> set (trace w1)"
    by (auto simp: log_pipeline_start_def seq_def db_call_def emit_def Let_def
          split: db_outcome.splits)
  then show "\<exists>h. Execute h (Log_insert pipeline_name (run_id self)) \<in> set (trace w1)"
    by blast
next
  assume le: "log_pipeline_end self pipeline_name status rp rf em w = (Inr (), w1)"
  obtain r0 w0 where c: "connect (snowflake self) w = (r0, w0)"
    by (cases "connect (snowflake self) w")
  with le obtain h where h: "r0 = Inr h"
    by (cases r0) (auto simp: log_pipeline_end_def seq_def)
  from le c h have "Execute h (Log_update pipeline_name (run_id self) status rp rf em) \<in> set (trace w1)"
    by (auto simp: log_pipeline_end_def seq_def db_call_def emit_def Let_def
          split: db_outcome.splits)
  then show "\<exists>h. Execute h (Log_update pipeline_name (run_id self) status rp rf em) \<in> set (trace w1)"
    by blast
next
  fix m r w'
  assume m: "m \<in> {run_ingestion self, run_transformation self, run_validation self}"
    and run: "m w = (r, w')"
  from m have "\<exists>st. emits (stage_event st (run_id self)) m"
    using emits_run_ingestion emits_run_transformation emits_run_validation by blast
  then obtain st where "emits (stage_event st (run_id self)) m"
    by blast
  then have "emits (\<lambda>e. log_run_id e = None \<or> log_run_id e = Some (run_id self)) m"
    by (rule emits_mono) (simp add: stage_event_def)
  from emitsD [OF this run]
  show "\<exists>new. trace w' = trace w @ new \<and>
             list_all (\<lambda>e. log_run_id e = None \<or> log_run_id e = Some (run_id self)) new"
    .
next
  fix r w'
  assume "run_full_pipeline self w = (r, w')"
  from emitsD [OF emits_run_full_pipeline this]
  show "\<exists>new. trace w' = trace w @ new \<and>
           list_all (\<lambda>e. log_run_id e = None \<or> log_run_id e = Some (run_id self)) new"
    .
qed

theorem run_id_shared_witness:
  "run_id (projr (fst (new_orchestrator ''config/config.yaml''
       (demo_world (\<lambda>_. Body JNull) (\<lambda>_. Db_rows []))))) = ''RUN_20240102_030405_123e4567''
   \<and> (\<exists>h. Execute h (Log_insert ''INGESTION'' ''RUN_20240102_030405_123e4567'')
         \<in> set (trace (snd (log_pipeline_start demo_orchestrator ''INGESTION''
              (demo_world (\<lambda>_. Body JNull) (\<lambda>_. Db_rows []))))))
   \<and> (\<exists>new. trace (snd (run_full_pipeline demo_orchestrator
                (demo_world (\<lambda>_. Body JNull) (\<lambda>_. Db_rows [])))) =
              trace (demo_world (\<lambda>_. Body JNull) (\<lambda>_. Db_rows [])) @ new \<and>
         list_all (\<lambda>e. log_run_id e = None \<or>
                     log_run_id e = Some ''RUN_20240102_030405_123e4567'') new)"
proof -
  let ?w = "demo_world (\<lambda>_. Body JNull) (\<lambda>_. Db_rows [])"
  let ?o = "projr (fst (new_orchestrator ''config/config.yaml'' ?w))"
  have rid: "run_id demo_orchestrator = ''RUN_20240102_030405_123e4567''"
    by (simp add: demo_orchestrator_def)
  have "\<not> isl (fst (new_orchestrator ''config/config.yaml'' ?w))"
    by (simp add: new_orchestrator_def new_connector_def run_defs demo_defs)
  then have n: "new_orchestrator ''config/config.yaml'' ?w =
      (Inr ?o, snd (new_orchestrator ''config/config.yaml'' ?w))"
    by (metis prod.collapse sum.collapse(2))
  have ck: "clock ?w (clock_reads ?w) =
      \<lparr>year = 2024, month = 1, day = 2, hour = 3, minute = 4, second = 5\<rparr>"
    "uuid4 ?w (uuid_draws ?w) = ''123e4567-e89b-12d3-a456-426614174000''"
    by (simp_all add: demo_world_def)
  from run_id_shared [where self = ?o and w = ?w and config_path = "''config/config.yaml''"
      and ?w1.0 = "snd (new_orchestrator ''config/config.yaml'' ?w)", THEN conjunct1, rule_format, OF n]
  have "run_id ?o = ''RUN_'' @ strftime_compact (clock ?w (clock_reads ?w)) @ ''_'' @
      take 8 (uuid4 ?w (uuid_draws ?w))"
    by blast
  then have c1: "run_id ?o = ''RUN_20240102_030405_123e4567''"
    by (simp add: ck num_defs)
  have "fst (log_pipeline_start demo_orchestrator ''INGESTION'' ?w) = Inr ()"
    by (simp add: eval_defs)
  then have ls: "log_pipeline_start demo_orchestrator ''INGESTION'' ?w =
      (Inr (), snd (log_pipeline_start demo_orchestrator ''INGESTION'' ?w))"
    by (metis prod.collapse)
  from run_id_shared [where self = demo_orchestrator and w = ?w and pipeline_name = "''INGESTION''"
      and ?w1.0 = "snd (log_pipeline_start demo_orchestrator ''INGESTION'' ?w)",
      THEN conjunct2, THEN conjunct1, rule_format, OF ls]
  have c2: "\<exists>h. Execute h (Log_insert ''INGESTION'' ''RUN_20240102_030405_123e4567'')
         \<in> set (trace (snd (log_pipeline_start demo_orchestrator ''INGESTION'' ?w)))"
    by (simp add: rid)
  have p: "run_full_pipeline demo_orchestrator ?w =
      (fst (run_full_pipeline demo_orchestrator ?w), snd (run_full_pipeline demo_orchestrator ?w))"
    by simp
  from run_id_shared [where self = demo_orchestrator and w = ?w,
      THEN conjunct2, THEN conjunct2, THEN conjunct2, THEN conjunct2, rule_format, OF p]
  have c3: "\<exists>new. trace (snd (run_full_pipeline demo_orchestrator ?w)) = trace ?w @ new \<and>
         list_all (\<lambda>e. log_run_id e = None \<or>
                     log_run_id e = Some ''RUN_20240102_030405_123e4567'') new"
    by (simp add: rid)
  from c1 c2 c3 show ?thesis
    by blast
qed

text \<open>
  Claim C7, as amended. The validation stage first writes its start-log row. After that,
  when no call on the warehouse raises, it calls the procedure that runs all validations
  and then counts the rows of the validation results of its run identifier whose status is
  \<open>FAIL\<close>; with \<open>N\<close> the count that this second statement returns, it returns true
  exactly when \<open>N\<close> is zero, and for \<open>N\<close> above zero it returns false and logs \<open>FAILED\<close>
  with the message \<open>N validation checks failed\<close>. An exception raised in the body of the
  \<open>try\<close>, such as the one of the procedure call, is caught and an end-log update with
  status \<open>FAILED\<close> and the message of the exception is executed: when that update succeeds
  the stage returns false; when the update itself raises, that exception reaches the
  caller, as does an exception of the start-log insert, which is made before the \<open>try\<close>.
\<close>

theorem run_validation_outcome:
  "(log_pipeline_start self ''VALIDATION'' w = (Inr (), w1) \<longrightarrow>
      (\<exists>h pre. (pre = [] \<or> (\<exists>ps. pre = [Connect ps])) \<and>
         connection w1 (cid (snowflake self)) = Some h \<and>
         trace w1 = trace w @ pre @
           [Cursor_open h, Execute h (Log_insert ''VALIDATION'' (run_id self)), Commit h,
            Cursor_close h]))
   \<and> (log_pipeline_start self ''VALIDATION'' w = (Inr (), w1) \<and>
      (\<forall>i < 4. \<exists>rs. db_reply w (db_calls w1 + i) = Db_rows rs) \<and>
      db_reply w (db_calls w1 + 1) = Db_rows rows \<and>
      first_cell (fetchone rows) (CInt 0) = CInt n \<and> 0 \<le> n \<longrightarrow>
        (\<exists>h. connection w1 (cid (snowflake self)) = Some h \<and>
           run_validation self w =
             (Inr (n = 0),
              w1\<lparr>trace := trace w1 @
                    [Cursor_open h, Execute h (Call_run_all_validations (run_id self)),
                     Execute h (Select_failed_checks (run_id self)), Cursor_close h,
                     Cursor_open h,
                     Execute h (Log_update ''VALIDATION'' (run_id self)
                       (if n = 0 then ''SUCCESS'' else ''FAILED'') 0 0
                       (if n = 0 then None else Some (str_int n @ '' validation checks failed''))),
                     Commit h, Cursor_close h],
                 db_calls := db_calls w1 + 4\<rparr>)))
   \<and> (log_pipeline_start self ''VALIDATION'' w = (Inr (), w1) \<and>
      db_reply w (db_calls w1) = Db_raise m \<longrightarrow>
        (\<exists>h. connection w1 (cid (snowflake self)) = Some h \<and>
           validation_body self w1 =
             (Inl (Exception m),
              w1\<lparr>trace := trace w1 @
                    [Cursor_open h, Execute h (Call_run_all_validations (run_id self))],
                 db_calls := Suc (db_calls w1)\<rparr>)))
   \<and> (log_pipeline_start self ''VALIDATION'' w = (Inr (), w1) \<and>
      validation_body self w1 = (Inl e, w2) \<and>
      log_pipeline_end self ''VALIDATION'' ''FAILED'' 0 0 (Some (str_exn e)) w2 = (Inr (), w3) \<longrightarrow>
        run_validation self w = (Inr False, w3) \<and>
        (\<exists>h pre. (pre = [] \<or> (\<exists>ps. pre = [Connect ps])) \<and>
           trace w3 = trace w2 @ pre @
             [Cursor_open h,
              Execute h (Log_update ''VALIDATION'' (run_id self) ''FAILED'' 0 0 (Some (str_exn e))),
              Commit h, Cursor_close h]))
   \<and> (log_pipeline_start self ''VALIDATION'' w = (Inr (), w1) \<and>
      validation_body self w1 = (Inl e, w2) \<and>
      log_pipeline_end self ''VALIDATION'' ''FAILED'' 0 0 (Some (str_exn e)) w2 = (Inl e', w3) \<longrightarrow>
        run_validation self w = (Inl e', w3))
   \<and> (log_pipeline_start self ''VALIDATION'' w = (Inl e, w1) \<longrightarrow>
        run_validation self w = (Inl e, w1))"
proof (intro conjI impI)
  assume "log_pipeline_start self ''VALIDATION'' w = (Inr (), w1)"
  from log_pipeline_start_trace [OF this]
  show "\<exists>h pre. (pre = [] \<or> (\<exists>ps. pre = [Connect ps])) \<and>
         connection w1 (cid (snowflake self)) = Some h \<and>
         trace w1 = trace w @ pre @
           [Cursor_open h, Execute h (Log_insert ''VALIDATION'' (run_id self)), Commit h,
            Cursor_close h]"
    .
next
  assume a: "log_pipeline_start self ''VALIDATION'' w = (Inr (), w1) \<and>
    (\<forall>i < 4. \<exists>rs. db_reply w (db_calls w1 + i) = Db_rows rs) \<and>
    db_reply w (db_calls w1 + 1) = Db_rows rows \<and>
    first_cell (fetchone rows) (CInt 0) = CInt n \<and> 0 \<le> n"
  from a log_pipeline_start_connected [of self "''VALIDATION''" w w1]
  have k: "connected (snowflake self) w1" "db_reply w1 = db_reply w"
    by simp_all
  from connect_connected [OF k(1)] obtain h where
    h: "connection w1 (cid (snowflake self)) = Some h" "is_open w1 h"
    by blast
  have q: "\<And>i. i < 4 \<Longrightarrow> \<exists>rs. db_reply w (db_calls w1 + i) = Db_rows rs"
    using a by blast
  from q [of 0] obtain r0 where r0: "db_reply w (db_calls w1) = Db_rows r0"
    by auto
  from a have r1: "db_reply w (Suc (db_calls w1)) = Db_rows rows"
    by simp
  from q [of 2] obtain r2 where r2: "db_reply w (Suc (Suc (db_calls w1))) = Db_rows r2"
    by auto
  from q [of 3] obtain r3 where r3: "db_reply w (Suc (Suc (Suc (db_calls w1)))) = Db_rows r3"
    by (auto simp: numeral_3_eq_3)
  note r = r0 r1 r2 r3
  from a have fc: "first_cell (fetchone rows) (CInt 0) = CInt n" "0 \<le> n" by simp_all
  have run: "run_validation self w =
      (Inr (n = 0),
       w1\<lparr>trace := trace w1 @ [Cursor_open h, Execute h (Call_run_all_validations (run_id self)),
              Execute h (Select_failed_checks (run_id self)), Cursor_close h, Cursor_open h,
              Execute h (Log_update ''VALIDATION'' (run_id self)
                (if n = 0 then ''SUCCESS'' else ''FAILED'') 0 0
                (if n = 0 then None else Some (str_int n @ '' validation checks failed''))),
              Commit h, Cursor_close h],
           db_calls := db_calls w1 + 4\<rparr>)"
    using a k h r fc
    by (simp add: run_validation_def validation_body_def log_pipeline_end_def seq_def
          try_except_def return_def connect_def db_call_def emit_def Let_def
          greater_than_zero_def failed_message_def)
  with h(1) show "\<exists>h. connection w1 (cid (snowflake self)) = Some h \<and>
           run_validation self w =
             (Inr (n = 0),
              w1\<lparr>trace := trace w1 @
                    [Cursor_open h, Execute h (Call_run_all_validations (run_id self)),
                     Execute h (Select_failed_checks (run_id self)), Cursor_close h,
                     Cursor_open h,
                     Execute h (Log_update ''VALIDATION'' (run_id self)
                       (if n = 0 then ''SUCCESS'' else ''FAILED'') 0 0
                       (if n = 0 then None else Some (str_int n @ '' validation checks failed''))),
                     Commit h, Cursor_close h],
                 db_calls := db_calls w1 + 4\<rparr>)"
    by blast
next
  assume a: "log_pipeline_start self ''VALIDATION'' w = (Inr (), w1) \<and>
      db_reply w (db_calls w1) = Db_raise m"
  from a log_pipeline_start_connected [of self "''VALIDATION''" w w1]
  have k: "connected (snowflake self) w1" "db_reply w1 = db_reply w"
    by simp_all
  from connect_connected [OF k(1)] obtain h where
    h: "connection w1 (cid (snowflake self)) = Some h" "is_open w1 h"
    by blast
  have "validation_body self w1 =
      (Inl (Exception m),
       w1\<lparr>trace := trace w1 @ [Cursor_open h, Execute h (Call_run_all_validations (run_id self))],
          db_calls := Suc (db_calls w1)\<rparr>)"
    using a k h
    by (simp add: validation_body_def seq_def connect_def db_call_def emit_def Let_def)
  with h(1) show "\<exists>h. connection w1 (cid (snowflake self)) = Some h \<and>
           validation_body self w1 =
             (Inl (Exception m),
              w1\<lparr>trace := trace w1 @
                    [Cursor_open h, Execute h (Call_run_all_validations (run_id self))],
                 db_calls := Suc (db_calls w1)\<rparr>)"
    by blast
next
  assume a: "log_pipeline_start self ''VALIDATION'' w = (Inr (), w1) \<and>
      validation_body self w1 = (Inl e, w2) \<and>
      log_pipeline_end self ''VALIDATION'' ''FAILED'' 0 0 (Some (str_exn e)) w2 = (Inr (), w3)"
  then show "run_validation self w = (Inr False, w3)"
    by (simp add: run_validation_def seq_def try_except_def return_def)
  from a have "log_pipeline_end self ''VALIDATION'' ''FAILED'' 0 0 (Some (str_exn e)) w2 = (Inr (), w3)"
    by simp
  from log_pipeline_end_trace [OF this]
  show "\<exists>h pre. (pre = [] \<or> (\<exists>ps. pre = [Connect ps])) \<and>
           trace w3 = trace w2 @ pre @
             [Cursor_open h,
              Execute h (Log_update ''VALIDATION'' (run_id self) ''FAILED'' 0 0 (Some (str_exn e))),
              Commit h, Cursor_close h]"
    .
next
  assume "log_pipeline_start self ''VALIDATION'' w = (Inr (), w1) \<and>
      validation_body self w1 = (Inl e, w2) \<and>
      log_pipeline_end self ''VALIDATION'' ''FAILED'' 0 0 (Some (str_exn e)) w2 = (Inl e', w3)"
  then show "run_validation self w = (Inl e', w3)"
    by (simp add: run_validation_def seq_def try_except_def return_def)
next
  assume "log_pipeline_start self ''VALIDATION'' w = (Inl e, w1)"
  then show "run_validation self w = (Inl e, w1)"
    by (simp add: run_validation_def seq_def)
qed

theorem run_validation_outcome_witness:
  "fst (run_validation demo_orchestrator
          (demo_world (\<lambda>_. Body JNull) (\<lambda>k. if k = 4 then Db_rows [[CInt 3]] else Db_rows []))) = Inr False
   \<and> trace (snd (run_validation demo_orchestrator
          (demo_world (\<lambda>_. Body JNull) (\<lambda>k. if k = 4 then Db_rows [[CInt 3]] else Db_rows [])))) =
     [Connect [''acct'', ''etl'', ''secret'', ''WH'', ''DB'', ''RAW'', ''LOADER''],
      Cursor_open 0, Execute 0 (Log_insert ''VALIDATION'' ''RUN_20240102_030405_123e4567''),
      Commit 0, Cursor_close 0,
      Cursor_open 0, Execute 0 (Call_run_all_validations ''RUN_20240102_030405_123e4567''),
      Execute 0 (Select_failed_checks ''RUN_20240102_030405_123e4567''), Cursor_close 0,
      Cursor_open 0,
      Execute 0 (Log_update ''VALIDATION'' ''RUN_20240102_030405_123e4567'' ''FAILED'' 0 0
        (Some ''3 validation checks failed'')),
      Commit 0, Cursor_close 0]
   \<and> fst (run_validation demo_orchestrator
          (demo_world (\<lambda>_. Body JNull) (\<lambda>k. if k = 3 then Db_raise ''procedure failed'' else Db_rows []))) = Inr False
   \<and> (\<exists>h pre. trace (snd (run_validation demo_orchestrator
             (demo_world (\<lambda>_. Body JNull) (\<lambda>k. if k = 3 then Db_raise ''procedure failed'' else Db_rows [])))) =
          trace (snd (validation_body demo_orchestrator
             (snd (log_pipeline_start demo_orchestrator ''VALIDATION''
                (demo_world (\<lambda>_. Body JNull) (\<lambda>k. if k = 3 then Db_raise ''procedure failed'' else Db_rows [])))))) @
          pre @
          [Cursor_open h,
           Execute h (Log_update ''VALIDATION'' ''RUN_20240102_030405_123e4567'' ''FAILED'' 0 0
             (Some ''procedure failed'')),
           Commit h, Cursor_close h])"
proof -
  let ?wa = "demo_world (\<lambda>_. Body JNull) (\<lambda>k. if k = 4 then Db_rows [[CInt 3]] else Db_rows [])"
  let ?wb = "demo_world (\<lambda>_. Body JNull) (\<lambda>k. if k = 3 then Db_raise ''procedure failed'' else Db_rows [])"
  let ?a1 = "snd (log_pipeline_start demo_orchestrator ''VALIDATION'' ?wa)"
  let ?b1 = "snd (log_pipeline_start demo_orchestrator ''VALIDATION'' ?wb)"
  let ?b2 = "snd (validation_body demo_orchestrator ?b1)"
  let ?b3 = "snd (log_pipeline_end demo_orchestrator ''VALIDATION'' ''FAILED'' 0 0 (Some ''procedure failed'') ?b2)"
  have rid: "run_id demo_orchestrator = ''RUN_20240102_030405_123e4567''"
    by (simp add: demo_orchestrator_def)
  have "fst (log_pipeline_start demo_orchestrator ''VALIDATION'' ?wa) = Inr ()"
    by (simp add: eval_defs)
  then have sa: "log_pipeline_start demo_orchestrator ''VALIDATION'' ?wa = (Inr (), ?a1)"
    by (metis prod.collapse)
  have ca: "db_calls ?a1 = 3"
    by (simp add: eval_defs)
  have c0: "connection ?a1 (cid (snowflake demo_orchestrator)) = Some 0"
    by (simp add: eval_defs)
  have tr1: "trace ?a1 =
      [Connect [''acct'', ''etl'', ''secret'', ''WH'', ''DB'', ''RAW'', ''LOADER''],
       Cursor_open 0, Execute 0 (Log_insert ''VALIDATION'' ''RUN_20240102_030405_123e4567''),
       Commit 0, Cursor_close 0]"
    by (simp add: eval_defs)
  have ra: "db_reply ?wa = (\<lambda>k. if k = 4 then Db_rows [[CInt 3]] else Db_rows [])"
    by (simp add: demo_world_def)
  have ha: "log_pipeline_start demo_orchestrator ''VALIDATION'' ?wa = (Inr (), ?a1) \<and>
      (\<forall>i < 4. \<exists>rs. db_reply ?wa (db_calls ?a1 + i) = Db_rows rs) \<and>
      db_reply ?wa (db_calls ?a1 + 1) = Db_rows [[CInt 3]] \<and>
      first_cell (fetchone [[CInt 3]]) (CInt 0) = CInt 3 \<and> (0::int) \<le> 3"
  proof (intro conjI)
    show "log_pipeline_start demo_orchestrator ''VALIDATION'' ?wa = (Inr (), ?a1)"
      by (rule sa)
  qed (simp_all add: ca ra fetchone_def first_cell_def)
  note ta = run_validation_outcome [where self = demo_orchestrator and w = ?wa and ?w1.0 = ?a1
      and rows = "[[CInt 3]]" and n = 3, THEN conjunct2, THEN conjunct1, rule_format, OF ha]
  then obtain h where hh: "connection ?a1 (cid (snowflake demo_orchestrator)) = Some h"
    and rv: "run_validation demo_orchestrator ?wa =
      (Inr ((3::int) = 0),
       ?a1\<lparr>trace := trace ?a1 @
             [Cursor_open h, Execute h (Call_run_all_validations (run_id demo_orchestrator)),
              Execute h (Select_failed_checks (run_id demo_orchestrator)), Cursor_close h,
              Cursor_open h,
              Execute h (Log_update ''VALIDATION'' (run_id demo_orchestrator)
                (if (3::int) = 0 then ''SUCCESS'' else ''FAILED'') 0 0
                (if (3::int) = 0 then None else Some (str_int 3 @ '' validation checks failed''))),
              Commit h, Cursor_close h],
          db_calls := db_calls ?a1 + 4\<rparr>)"
    by blast
  from hh c0 have h0: "h = 0"
    by simp
  from rv have a1: "fst (run_validation demo_orchestrator ?wa) = Inr False"
    by simp
  from rv have "trace (snd (run_validation demo_orchestrator ?wa)) =
      trace ?a1 @
        [Cursor_open h, Execute h (Call_run_all_validations (run_id demo_orchestrator)),
         Execute h (Select_failed_checks (run_id demo_orchestrator)), Cursor_close h,
         Cursor_open h,
         Execute h (Log_update ''VALIDATION'' (run_id demo_orchestrator) ''FAILED'' 0 0
           (Some (str_int 3 @ '' validation checks failed''))),
         Commit h, Cursor_close h]"
    by simp
  then have a2: "trace (snd (run_validation demo_orchestrator ?wa)) =
     [Connect [''acct'', ''etl'', ''secret'', ''WH'', ''DB'', ''RAW'', ''LOADER''],
      Cursor_open 0, Execute 0 (Log_insert ''VALIDATION'' ''RUN_20240102_030405_123e4567''),
      Commit 0, Cursor_close 0,
      Cursor_open 0, Execute 0 (Call_run_all_validations ''RUN_20240102_030405_123e4567''),
      Execute 0 (Select_failed_checks ''RUN_20240102_030405_123e4567''), Cursor_close 0,
      Cursor_open 0,
      Execute 0 (Log_update ''VALIDATION'' ''RUN_20240102_030405_123e4567'' ''FAILED'' 0 0
        (Some ''3 validation checks failed'')),
      Commit 0, Cursor_close 0]"
    by (simp add: tr1 h0 rid num_defs)
  have "fst (log_pipeline_start demo_orchestrator ''VALIDATION'' ?wb) = Inr ()"
    by (simp add: eval_defs)
  then have sb: "log_pipeline_start demo_orchestrator ''VALIDATION'' ?wb = (Inr (), ?b1)"
    by (metis prod.collapse)
  have "fst (validation_body demo_orchestrator ?b1) = Inl (Exception ''procedure failed'')"
    by (simp add: eval_defs)
  then have vb: "validation_body demo_orchestrator ?b1 = (Inl (Exception ''procedure failed''), ?b2)"
    by (metis prod.collapse)
  have "fst (log_pipeline_end demo_orchestrator ''VALIDATION'' ''FAILED'' 0 0 (Some ''procedure failed'') ?b2) = Inr ()"
    by (simp add: eval_defs)
  then have lb: "log_pipeline_end demo_orchestrator ''VALIDATION'' ''FAILED'' 0 0
      (Some (str_exn (Exception ''procedure failed''))) ?b2 = (Inr (), ?b3)"
    by (metis prod.collapse str_exn.simps(2))
  note tb = run_validation_outcome [where self = demo_orchestrator and w = ?wb and ?w1.0 = ?b1
      and e = "Exception ''procedure failed''" and ?w2.0 = ?b2 and ?w3.0 = ?b3,
      THEN conjunct2, THEN conjunct2, THEN conjunct2, THEN conjunct1, rule_format,
      OF conjI [OF sb conjI [OF vb lb]]]
  from tb have b1: "fst (run_validation demo_orchestrator ?wb) = Inr False"
    by simp
  from tb have e3: "snd (run_validation demo_orchestrator ?wb) = ?b3"
    by simp
  from tb have "\<exists>h pre. trace ?b3 = trace ?b2 @ pre @
          [Cursor_open h,
           Execute h (Log_update ''VALIDATION'' ''RUN_20240102_030405_123e4567'' ''FAILED'' 0 0
             (Some ''procedure failed'')),
           Commit h, Cursor_close h]"
    by (auto simp: rid)
  then have b2: "\<exists>h pre. trace (snd (run_validation demo_orchestrator ?wb)) = trace ?b2 @ pre @
          [Cursor_open h,
           Execute h (Log_update ''VALIDATION'' ''RUN_20240102_030405_123e4567'' ''FAILED'' 0 0
             (Some ''procedure failed'')),
           Commit h, Cursor_close h]"
    by (simp only: e3)
  from a1 a2 b1 b2 show ?thesis
    by blast
qed

theorem run_validation_handler_counterexample:
  "fst (validation_body demo_orchestrator
          (snd (log_pipeline_start demo_orchestrator ''VALIDATION''
             (demo_world (\<lambda>_. Body JNull) (\<lambda>k. if k < 3 then Db_rows [] else Db_raise ''connection lost''))))) =
     Inl (Exception ''connection lost'')
   \<and> fst (run_validation demo_orchestrator
          (demo_world (\<lambda>_. Body JNull) (\<lambda>k. if k < 3 then Db_rows [] else Db_raise ''connection lost''))) =
     Inl (Exception ''connection lost'')"
  by (simp add: eval_defs)


end
